theory Spec2Isabelle
  imports Complex_Main "HOL-Library.Word"
begin

section \<open>JavaScript values\<close>

text \<open>
  The handlers work on dynamically typed data: the parsed mock document, the request, the
  values thrown by a failing call. They are modelled by one datatype of JavaScript values.
  A JSON document is a value without \<open>JUndefined\<close>. An object is the list of its own
  properties in enumeration order, with distinct keys; numbers are rationals (a JSON
  number is a decimal literal; only its sign and whether it is zero matter below).
\<close>

datatype jsval =
    JUndefined
  | JNull
  | JBool bool
  | JNum rat
  | JStr string
  | JArr "jsval list"
  | JObj "(string \<times> jsval) list"

text \<open>JavaScript truthiness, as tested by \<^verbatim>\<open>if (v)\<close> and \<^verbatim>\<open>v || w\<close>.\<close>

fun truthy :: "jsval \<Rightarrow> bool" where
  "truthy JUndefined = False"
| "truthy JNull = False"
| "truthy (JBool b) = b"
| "truthy (JNum n) = (n \<noteq> 0)"
| "truthy (JStr s) = (s \<noteq> [])"
| "truthy (JArr xs) = True"
| "truthy (JObj kvs) = True"

definition js_or :: "jsval \<Rightarrow> jsval \<Rightarrow> jsval" where
  "js_or a b = (if truthy a then a else b)"

text \<open>
  A thrown value is a JavaScript value too. The built-in error objects are objects with a
  \<open>name\<close> and a \<open>message\<close>.
\<close>

definition js_error :: "string \<Rightarrow> string \<Rightarrow> jsval" where
  "js_error name msg = JObj [(''name'', JStr name), (''message'', JStr msg)]"

definition TypeError :: "string \<Rightarrow> jsval" where
  "TypeError msg = js_error ''TypeError'' msg"

definition SyntaxError :: "string \<Rightarrow> jsval" where
  "SyntaxError msg = js_error ''SyntaxError'' msg"

definition Error :: "string \<Rightarrow> jsval" where
  "Error msg = js_error ''Error'' msg"

text \<open>
  Reading a named property, \<^verbatim>\<open>v.k\<close>. On \<open>null\<close> and \<open>undefined\<close> the read
  raises a TypeError; on every other value it yields the own property or \<open>undefined\<close>.
  The program reads only the names \<open>delay\<close>, \<open>error\<close>, \<open>metadata\<close>,
  \<open>headers\<close>, \<open>trailers\<close>, \<open>data\<close>, \<open>end\<close>, \<open>code\<close> and \<open>message\<close>,
  none of which is a built-in property of arrays, strings, numbers or booleans.
\<close>

definition own_prop :: "jsval \<Rightarrow> string \<Rightarrow> jsval" where
  "own_prop v k =
     (case v of
        JObj kvs \<Rightarrow> (case map_of kvs k of Some x \<Rightarrow> x | None \<Rightarrow> JUndefined)
      | _ \<Rightarrow> JUndefined)"

definition nullish :: "jsval \<Rightarrow> bool" where
  "nullish v = (v = JNull \<or> v = JUndefined)"

text \<open>The TypeError of the engine for a read of the property \<open>k\<close> of \<open>null\<close> or
  \<open>undefined\<close>; \<open>CHR 0x27\<close> is the single quote.\<close>

definition read_error :: "jsval \<Rightarrow> string \<Rightarrow> jsval" where
  "read_error v k =
     TypeError (''Cannot read properties of '' @ (if v = JNull then ''null'' else ''undefined'')
                @ '' (reading '' @ [CHR 0x27] @ k @ [CHR 0x27] @ '')'')"

definition get_member :: "jsval \<Rightarrow> string \<Rightarrow> jsval + jsval" where
  "get_member v k = (if nullish v then Inl (read_error v k) else Inr (own_prop v k))"

text \<open>\<^verbatim>\<open>delete v.k\<close>: removes the property from an object, in place; the model returns
  the object after the deletion. On a value that has no such property nothing changes.\<close>

definition delete_prop :: "jsval \<Rightarrow> string \<Rightarrow> jsval" where
  "delete_prop v k =
     (case v of
        JObj kvs \<Rightarrow> JObj (filter (\<lambda>kv. fst kv \<noteq> k) kvs)
      | _ \<Rightarrow> v)"

definition has_key :: "jsval \<Rightarrow> string \<Rightarrow> bool" where
  "has_key v k = (case v of JObj kvs \<Rightarrow> k \<in> fst ` set kvs | _ \<Rightarrow> False)"

text \<open>Decimal numerals, for the index keys of arrays and strings.\<close>

definition digit_char :: "nat \<Rightarrow> char" where
  "digit_char d = char_of (48 + d)"

fun dec_string :: "nat \<Rightarrow> string" where
  "dec_string n =
     (if n < 10 then [digit_char n] else dec_string (n div 10) @ [digit_char (n mod 10)])"

text \<open>
  \<^verbatim>\<open>for (const key in m)\<close> together with the read \<^verbatim>\<open>m[key]\<close> in the loop body: the
  enumerable keys of \<open>m\<close>, in enumeration order, each with its value. An array and a
  string enumerate their indices; numbers and booleans enumerate nothing.
\<close>

fun for_in_entries :: "jsval \<Rightarrow> (string \<times> jsval) list" where
  "for_in_entries (JObj kvs) = kvs"
| "for_in_entries (JArr xs) = zip (map dec_string [0..<length xs]) xs"
| "for_in_entries (JStr s) = zip (map dec_string [0..<length s]) (map (\<lambda>c. JStr [c]) s)"
| "for_in_entries v = []"

text \<open>\<^verbatim>\<open>key.endsWith(sfx)\<close>.\<close>

definition endsWith :: "string \<Rightarrow> string \<Rightarrow> bool" where
  "endsWith key sfx = (take (length sfx) (rev key) = rev sfx)"

section \<open>The response directive processor\<close>

text \<open>
  \<^verbatim>\<open>grpc.Metadata\<close> belongs to the transport library (grpc-js). An instance is
  represented by the entries added to it, in order, each under its normalised key; a value
  is either a value of the document, passed as it stands, or a byte buffer.
\<close>

type_synonym byte = "8 word"

datatype md_value = MdValue jsval | MdBuffer "byte list"

type_synonym Metadata = "(string \<times> md_value) list"

record CamoflageGrpcResponse =
  delay :: jsval
  error :: jsval
  processedResponse :: jsval
  headers :: "Metadata option"
  trailers :: "Metadata option"

text \<open>
  \<^verbatim>\<open>Metadata.add(key, value)\<close> lower-cases the key, validates key and value, and
  raises an Error when the validation fails:
  \<^item> the key must match \<^verbatim>\<open>/^[0-9a-z_.-]+$/\<close>;
  \<^item> a value that is \<open>null\<close> or \<open>undefined\<close> is not looked at;
  \<^item> under a key that ends with \<open>-bin\<close> the value must be a buffer;
  \<^item> under any other key the value must not be a buffer, and its string form must match
    \<^verbatim>\<open>/^[ -~]*$/\<close>.
\<close>

definition to_lower :: "char \<Rightarrow> char" where
  "to_lower c =
     (if 65 \<le> (of_char c :: nat) \<and> (of_char c :: nat) \<le> 90 then char_of ((of_char c :: nat) + 32)
      else c)"

definition normalizeKey :: "string \<Rightarrow> string" where
  "normalizeKey key = map to_lower key"

definition legal_key_char :: "char \<Rightarrow> bool" where
  "legal_key_char c =
     (48 \<le> (of_char c :: nat) \<and> (of_char c :: nat) \<le> 57
      \<or> 97 \<le> (of_char c :: nat) \<and> (of_char c :: nat) \<le> 122
      \<or> c = CHR ''_'' \<or> c = CHR ''.'' \<or> c = CHR ''-'')"

definition isLegalKey :: "string \<Rightarrow> bool" where
  "isLegalKey key = (key \<noteq> [] \<and> list_all legal_key_char key)"

definition isBinaryKey :: "string \<Rightarrow> bool" where
  "isBinaryKey key = endsWith key ''-bin''"

definition printable :: "char \<Rightarrow> bool" where
  "printable c = (32 \<le> (of_char c :: nat) \<and> (of_char c :: nat) \<le> 126)"

text \<open>
  The test \<^verbatim>\<open>/^[ -~]*$/.test(value)\<close> works on the string form of the value. The
  string form of a number, of a boolean, of \<open>null\<close> and of an object
  (\<^verbatim>\<open>[object Object]\<close>) is printable; the string form of an array joins the string
  forms of its elements with commas.
\<close>

fun isLegalNonBinaryValue :: "jsval \<Rightarrow> bool" where
  "isLegalNonBinaryValue (JStr s) = list_all printable s"
| "isLegalNonBinaryValue (JArr xs) = list_all isLegalNonBinaryValue xs"
| "isLegalNonBinaryValue v = True"

text \<open>The text that the message about an illegal value quotes. Of the values that fail the
  test all but the arrays are strings; for an array the model quotes nothing.\<close>

definition quoted_value :: "jsval \<Rightarrow> string" where
  "quoted_value v = (case v of JStr s \<Rightarrow> s | _ \<Rightarrow> [])"

definition Metadata_add :: "Metadata \<Rightarrow> string \<Rightarrow> md_value \<Rightarrow> jsval + Metadata" where
  "Metadata_add md key val =
     (let k = normalizeKey key
      in if \<not> isLegalKey k
         then Inl (Error (''Metadata key \"'' @ k @ ''\" contains illegal characters''))
         else
           (case val of
              MdValue v \<Rightarrow>
                (if nullish v then Inr (md @ [(k, val)])
                 else if isBinaryKey k
                 then Inl (Error (''keys that end with '' @ [CHR 0x27] @ ''-bin'' @ [CHR 0x27]
                                  @ '' must have Buffer values''))
                 else if isLegalNonBinaryValue v then Inr (md @ [(k, val)])
                 else Inl (Error (''Metadata string value \"'' @ quoted_value v
                                  @ ''\" contains illegal characters'')))
            | MdBuffer bytes \<Rightarrow>
                (if isBinaryKey k then Inr (md @ [(k, val)])
                 else Inl (Error (''keys that don'' @ [CHR 0x27] @ ''t end with '' @ [CHR 0x27] @ ''-bin''
                                  @ [CHR 0x27] @ '' must have String values'')))))"

text \<open>
  The body of the loop over a header or trailer map, and the loop. \<open>buf\<close> stands for
  Node's \<^verbatim>\<open>Buffer.from(v, "base64")\<close>, a library call that may raise. The suffix test of
  the source is made on the key as it stands in the document. A raise of the decoder or of
  \<open>add\<close> leaves the loop.
\<close>

definition add_entry ::
  "(jsval \<Rightarrow> jsval + byte list) \<Rightarrow> Metadata \<Rightarrow> string \<times> jsval \<Rightarrow> jsval + Metadata" where
  "add_entry buf md kv =
     (case kv of (key, v) \<Rightarrow>
        if endsWith key ''-bin''
        then (case buf v of
                Inl e \<Rightarrow> Inl e
              | Inr bytes \<Rightarrow> Metadata_add md key (MdBuffer bytes))
        else Metadata_add md key (MdValue v))"

fun add_entries ::
  "(jsval \<Rightarrow> jsval + byte list) \<Rightarrow> (string \<times> jsval) list \<Rightarrow> Metadata \<Rightarrow> jsval + Metadata" where
  "add_entries buf [] md = Inr md"
| "add_entries buf (kv # rest) md =
     (case add_entry buf md kv of
        Inl e \<Rightarrow> Inl e
      | Inr md' \<Rightarrow> add_entries buf rest md')"

text \<open>
  Two descriptions of the loop, to state its properties with. \<open>accepted\<close> holds of the
  entries of a map on which neither the decoder nor \<open>add\<close> raises: the normalised key is
  legal, and either the key ends with \<open>-bin\<close> and the decoder accepts the value, or the
  value is \<open>null\<close>, or the normalised key is not a binary key and the value is legal under
  such a key. \<open>inserted\<close> is the entry that a key of the map stands for: under a key that
  ends with \<open>-bin\<close> the decoded bytes, under any other key the value unchanged.
\<close>

definition accepted :: "(jsval \<Rightarrow> jsval + byte list) \<Rightarrow> string \<times> jsval \<Rightarrow> bool" where
  "accepted buf kv =
     (case kv of (key, v) \<Rightarrow>
        isLegalKey (normalizeKey key)
        \<and> (if endsWith key ''-bin'' then (case buf v of Inl e \<Rightarrow> False | Inr bytes \<Rightarrow> True)
           else nullish v \<or> (\<not> isBinaryKey (normalizeKey key) \<and> isLegalNonBinaryValue v)))"

definition inserted :: "(jsval \<Rightarrow> jsval + byte list) \<Rightarrow> string \<times> jsval \<Rightarrow> string \<times> md_value" where
  "inserted buf kv =
     (case kv of (key, v) \<Rightarrow>
        (normalizeKey key, if endsWith key ''-bin'' then MdBuffer (projr (buf v)) else MdValue v))"

text \<open>\<^verbatim>\<open>if (m) { md = new grpc.Metadata(); for (const key in m) ... }\<close>, with \<open>md\<close>
  initially \<open>null\<close>.\<close>

definition build_metadata ::
  "(jsval \<Rightarrow> jsval + byte list) \<Rightarrow> jsval \<Rightarrow> jsval + Metadata option" where
  "build_metadata buf m =
     (if truthy m
      then (case add_entries buf (for_in_entries m) [] of
              Inl e \<Rightarrow> Inl e
            | Inr md \<Rightarrow> Inr (Some md))
      else Inr None)"

text \<open>
  \<open>processResponse\<close>. The function deletes the directive keys from its argument in
  place and returns that same object as \<open>processedResponse\<close>: the field is both the
  payload and the state of the caller's document after the call. \<open>Inl\<close> is a raise.
\<close>

definition processResponse ::
  "(jsval \<Rightarrow> jsval + byte list) \<Rightarrow> jsval \<Rightarrow> jsval + CamoflageGrpcResponse" where
  "processResponse buf response =
     (case get_member response ''delay'' of
        Inl e \<Rightarrow> Inl e
      | Inr d \<Rightarrow>
          (let delay = js_or d (JNum 0);
               response1 = delete_prop response ''delay'';
               error = js_or (own_prop response1 ''error'') JNull;
               response2 = delete_prop response1 ''error''
           in if truthy (own_prop response2 ''metadata'')
              then
                (let headerMetadata = js_or (own_prop (own_prop response2 ''metadata'') ''headers'') JNull;
                     trailerMetadata = js_or (own_prop (own_prop response2 ''metadata'') ''trailers'') JNull;
                     response3 = delete_prop response2 ''metadata''
                 in case build_metadata buf headerMetadata of
                      Inl e \<Rightarrow> Inl e
                    | Inr hs \<Rightarrow>
                        (case build_metadata buf trailerMetadata of
                           Inl e \<Rightarrow> Inl e
                         | Inr ts \<Rightarrow>
                             Inr \<lparr>delay = delay, error = error, processedResponse = response3,
                                  headers = hs, trailers = ts\<rparr>))
              else Inr \<lparr>delay = delay, error = error, processedResponse = response2,
                        headers = None, trailers = None\<rparr>))"

text \<open>
  A decoder to run the model with: base64 as Node decodes it (characters outside the
  alphabet are skipped, decoding stops at the first \<open>=\<close>, the URL-safe characters are
  accepted, left-over bits are dropped). A value that is not a string is refused.
\<close>

fun index_of :: "'a \<Rightarrow> 'a list \<Rightarrow> nat option" where
  "index_of x [] = None"
| "index_of x (y # ys) = (if x = y then Some 0 else map_option Suc (index_of x ys))"

definition b64_alphabet :: string where
  "b64_alphabet = ''ABCDEFGHIJKLMNOPQRSTUVWXYZabcdefghijklmnopqrstuvwxyz0123456789+/''"

definition b64_index :: "char \<Rightarrow> nat option" where
  "b64_index c =
     (if c = CHR ''-'' then Some 62 else if c = CHR ''_'' then Some 63
      else index_of c b64_alphabet)"

definition b64_sextets :: "string \<Rightarrow> nat list" where
  "b64_sextets s = List.map_filter b64_index (takeWhile (\<lambda>c. c \<noteq> CHR ''='') s)"

fun b64_bytes :: "nat list \<Rightarrow> byte list" where
  "b64_bytes (a # b # c # d # rest) =
     [of_nat (a * 4 + b div 16), of_nat ((b mod 16) * 16 + c div 4), of_nat ((c mod 4) * 64 + d)]
       @ b64_bytes rest"
| "b64_bytes [a, b, c] = [of_nat (a * 4 + b div 16), of_nat ((b mod 16) * 16 + c div 4)]"
| "b64_bytes [a, b] = [of_nat (a * 4 + b div 16)]"
| "b64_bytes xs = []"

definition Buffer_from_base64 :: "jsval \<Rightarrow> jsval + byte list" where
  "Buffer_from_base64 v =
     (case v of
        JStr s \<Rightarrow> Inr (b64_bytes (b64_sextets s))
      | _ \<Rightarrow> Inl (TypeError ''The first argument must be of type string''))"

section \<open>Strings\<close>

text \<open>\<^verbatim>\<open>s.trim()\<close>, on the ASCII white space.\<close>

definition is_space :: "char \<Rightarrow> bool" where
  "is_space c = (c = CHR 0x20 \<or> c = CHR 0x09 \<or> c = CHR 0x0A \<or> c = CHR 0x0B \<or> c = CHR 0x0C \<or> c = CHR 0x0D)"

definition trim :: "string \<Rightarrow> string" where
  "trim s = rev (dropWhile is_space (rev (dropWhile is_space s)))"

text \<open>\<^verbatim>\<open>s.replace(pat, rep)\<close> with a string pattern: the first occurrence only.\<close>

fun replace_first :: "string \<Rightarrow> string \<Rightarrow> string \<Rightarrow> string" where
  "replace_first pat rep [] = (if pat = [] then rep else [])"
| "replace_first pat rep (c # cs) =
     (if take (length pat) (c # cs) = pat then rep @ drop (length pat) (c # cs)
      else c # replace_first pat rep cs)"

text \<open>\<^verbatim>\<open>content.split("====")\<close>: the pieces between the occurrences of the delimiter,
  scanned from the left; \<open>cur\<close> is the piece being read.\<close>

fun split_streams :: "string \<Rightarrow> string \<Rightarrow> string list" where
  "split_streams cur [] = [cur]"
| "split_streams cur (c # cs) =
     (if take 4 (c # cs) = ''===='' then cur # split_streams [] (drop 4 (c # cs))
      else split_streams (cur @ [c]) cs)"

section \<open>Transport events, hooks and collaborators\<close>

text \<open>
  A handler acts on the transport, the logger and the metrics registry. Its model returns
  the sequence of these actions, in the order in which they are issued, together with the
  outcome of the handler's promise: \<open>Inr\<close> when it resolves, \<open>Inl e\<close> when it rejects
  with \<open>e\<close>. One \<open>Metric\<close> event is one call of \<open>collectMetrics\<close>, that is one counter
  increment and one histogram observation under the same labels; the elapsed time is not
  represented.
\<close>

datatype HookEvent = OnRequest | BeforeResponse | AfterResponse

datatype event =
    HookRun HookEvent nat
  | LogError jsval
  | Sleep jsval
  | SendMetadata Metadata
  | Callback jsval jsval "Metadata option"
  | EmitError jsval
  | Write jsval
  | End
  | Metric jsval string string

type_synonym 'a comp = "event list \<times> (jsval + 'a)"

definition ret :: "'a \<Rightarrow> 'a comp" where
  "ret x = ([], Inr x)"

definition lift :: "jsval + 'a \<Rightarrow> 'a comp" where
  "lift r = ([], r)"

definition emit :: "event \<Rightarrow> unit comp" where
  "emit ev = ([ev], Inr ())"

definition cbind :: "'a comp \<Rightarrow> ('a \<Rightarrow> 'b comp) \<Rightarrow> 'b comp" where
  "cbind m f =
     (case m of
        (es, Inl e) \<Rightarrow> (es, Inl e)
      | (es, Inr x) \<Rightarrow> (case f x of (es', r) \<Rightarrow> (es @ es', r)))"

definition try_catch :: "'a comp \<Rightarrow> (jsval \<Rightarrow> 'a comp) \<Rightarrow> 'a comp" where
  "try_catch m handler =
     (case m of
        (es, Inl e) \<Rightarrow> (case handler e of (es', r) \<Rightarrow> (es @ es', r))
      | (es, Inr x) \<Rightarrow> (es, Inr x))"

fun seq :: "unit comp list \<Rightarrow> unit comp" where
  "seq [] = ret ()"
| "seq (m # ms) = cbind m (\<lambda>_. seq ms)"

definition when_truthy :: "bool \<Rightarrow> unit comp \<Rightarrow> unit comp" where
  "when_truthy b m = (if b then m else ret ())"

text \<open>
  A hook receives the call, the inbound data and the processed response, and either
  completes or raises. It is modelled by what it does to the handler: \<open>None\<close> when its
  awaited work completes, \<open>Some e\<close> when it raises \<open>e\<close>. The registry maps a method path
  to three optional lists.
\<close>

type_synonym CamoflageGrpcHook = "jsval \<Rightarrow> CamoflageGrpcResponse option \<Rightarrow> jsval option"

record hook_lists =
  onRequest :: "CamoflageGrpcHook list option"
  beforeResponse :: "CamoflageGrpcHook list option"
  afterResponse :: "CamoflageGrpcHook list option"

type_synonym Hooks = "string \<Rightarrow> hook_lists option"

text \<open>\<^verbatim>\<open>this.hooks[handlerPath]?.onRequest || []\<close> and its two siblings.\<close>

definition hooks_for ::
  "Hooks \<Rightarrow> string \<Rightarrow> (hook_lists \<Rightarrow> CamoflageGrpcHook list option) \<Rightarrow> CamoflageGrpcHook list" where
  "hooks_for hooks handlerPath ev =
     (case hooks handlerPath of
        None \<Rightarrow> []
      | Some entry \<Rightarrow> (case ev entry of None \<Rightarrow> [] | Some hs \<Rightarrow> hs))"

text \<open>The loop \<^verbatim>\<open>for (let i = 0; i < hs.length; i++) { await hs[i](call, data, res) }\<close>.\<close>

fun run_hooks ::
  "HookEvent \<Rightarrow> nat \<Rightarrow> CamoflageGrpcHook list \<Rightarrow> jsval \<Rightarrow> CamoflageGrpcResponse option \<Rightarrow> unit comp" where
  "run_hooks ev i [] data res = ret ()"
| "run_hooks ev i (h # hs) data res =
     (case h data res of
        Some e \<Rightarrow> ([HookRun ev i], Inl e)
      | None \<Rightarrow> cbind (emit (HookRun ev i)) (\<lambda>_. run_hooks ev (Suc i) hs data res))"

text \<open>
  What a handler is given besides the call: the configuration, the file system, the
  template engine, \<^verbatim>\<open>JSON.parse\<close>, \<^verbatim>\<open>Buffer.from(_, "base64")\<close> and the platform's
  line end. Each call that can raise returns a sum.
\<close>

record env =
  mocksDir :: string
  path_join :: "string \<Rightarrow> string \<Rightarrow> string"
  existsSync :: "string \<Rightarrow> bool"
  readFileSync :: "string \<Rightarrow> jsval + string"
  helpers_parse :: "string \<Rightarrow> jsval \<Rightarrow> jsval \<Rightarrow> jsval + string"
  JSON_parse :: "string \<Rightarrow> jsval + jsval"
  Buffer_from :: "jsval \<Rightarrow> jsval + byte list"
  os_EOL :: string

record call =
  getPath :: string
  request :: jsval
  metadata :: jsval

text \<open>The status codes of \<^verbatim>\<open>grpc.status\<close>.\<close>

definition status_OK :: jsval where "status_OK = JNum 0"
definition status_NOT_FOUND :: jsval where "status_NOT_FOUND = JNum 5"
definition status_INTERNAL :: jsval where "status_INTERNAL = JNum 13"

definition mockFilePath :: "env \<Rightarrow> string \<Rightarrow> string" where
  "mockFilePath env handlerPath =
     path_join env (mocksDir env)
       (map (\<lambda>c. if c = CHR ''.'' then CHR ''/'' else c) handlerPath @ ''.mock'')"

definition not_found_message :: "string \<Rightarrow> string" where
  "not_found_message path = ''No suitable mock file was found for '' @ path"

definition not_found_error :: "string \<Rightarrow> jsval" where
  "not_found_error path =
     JObj [(''code'', status_NOT_FOUND), (''message'', JStr (not_found_message path))]"

text \<open>\<^verbatim>\<open>this.helpers.parse(fs.readFileSync(path, "utf-8").trim(), {request, metadata})\<close>.\<close>

definition render_mock :: "env \<Rightarrow> string \<Rightarrow> jsval \<Rightarrow> jsval \<Rightarrow> string comp" where
  "render_mock env path req md =
     cbind (lift (readFileSync env path)) (\<lambda>text. lift (helpers_parse env (trim text) req md))"

definition collectMetrics :: "jsval \<Rightarrow> string \<Rightarrow> string \<Rightarrow> unit comp" where
  "collectMetrics err grpc_method grpc_type =
     (if truthy err \<and> truthy (own_prop err ''code'')
      then emit (Metric (own_prop err ''code'') grpc_method grpc_type)
      else emit (Metric (JStr ''0'') grpc_method grpc_type))"

text \<open>The \<^verbatim>\<open>catch (error)\<close> block of the unary handler; the streaming handlers differ in
  how they answer.\<close>

definition internal_error :: "jsval \<Rightarrow> jsval comp" where
  "internal_error thrown =
     cbind (lift (get_member thrown ''message''))
       (\<lambda>msg. ret (JObj [(''code'', status_INTERNAL), (''message'', msg)]))"

definition send_headers :: "Metadata option \<Rightarrow> unit comp" where
  "send_headers md = (case md of Some h \<Rightarrow> emit (SendMetadata h) | None \<Rightarrow> ret ())"

section \<open>The unary handler\<close>

definition unaryHandler :: "env \<Rightarrow> Hooks \<Rightarrow> call \<Rightarrow> unit comp" where
  "unaryHandler env hooks call =
     (let handlerPath = getPath call;
          onRequestHooks = hooks_for hooks handlerPath onRequest;
          beforeResponseHooks = hooks_for hooks handlerPath beforeResponse;
          afterResponseHooks = hooks_for hooks handlerPath afterResponse
      in cbind (run_hooks OnRequest 0 onRequestHooks JUndefined None) (\<lambda>_.
         try_catch
           (let path = mockFilePath env handlerPath
            in if existsSync env path
               then
                 cbind (render_mock env path (request call) (metadata call)) (\<lambda>content.
                 cbind (lift (JSON_parse env content)) (\<lambda>response.
                 cbind (lift (processResponse (Buffer_from env) response)) (\<lambda>res.
                 seq [run_hooks BeforeResponse 0 beforeResponseHooks JNull (Some res),
                      emit (Sleep (delay res)),
                      send_headers (headers res),
                      emit (Callback (error res) (processedResponse res) (trailers res)),
                      collectMetrics (error res) handlerPath ''unary'',
                      run_hooks AfterResponse 0 afterResponseHooks JNull (Some res)])))
               else
                 seq [emit (LogError (JStr (not_found_message path))),
                      emit (Callback (not_found_error path) (JObj []) None),
                      collectMetrics (not_found_error path) handlerPath ''unary''])
           (\<lambda>thrown.
              cbind (emit (LogError thrown)) (\<lambda>_.
              cbind (internal_error thrown) (\<lambda>errorObj.
              seq [emit (Callback errorObj (JObj []) None),
                   collectMetrics errorObj handlerPath ''unary''])))))"

section \<open>The server-streaming handler\<close>

text \<open>
  Modelled from the spec: the module \<^verbatim>\<open>./sleep\<close> is not among the sources. The spec has
  the handler "sleep for \<open>delay\<close>", a non-negative number of milliseconds with default 0:
  \<^verbatim>\<open>await sleep(delay)\<close> suspends the calling task and resumes it \<open>delay\<close> milliseconds
  later. \<open>sleep_ms\<close> is that duration; a delay that is not a positive number does not wait.
\<close>

definition sleep_ms :: "jsval \<Rightarrow> rat" where
  "sleep_ms d = (case d of JNum n \<Rightarrow> (if 0 < n then n else 0) | _ \<Rightarrow> 0)"

text \<open>
  The pending timers, earliest first. A timer is queued behind the timers that expire at
  the same time or earlier, so timers of equal expiry fire in the order of their creation.
\<close>

fun insert_timer :: "rat \<Rightarrow> 'a \<Rightarrow> (rat \<times> 'a) list \<Rightarrow> (rat \<times> 'a) list" where
  "insert_timer t x [] = [(t, x)]"
| "insert_timer t x ((t', y) # q) =
     (if t < t' then (t, x) # (t', y) # q else (t', y) # insert_timer t x q)"

text \<open>
  \<^verbatim>\<open>streamArr.forEach(async (stream, index) => {...})\<close> starts one task per chunk and
  awaits none of them: each callback runs until its first suspension and \<open>forEach\<close> moves
  on to the next chunk. A raise inside a callback rejects that callback's promise, which
  nobody holds; the chunk produces nothing more and the \<^verbatim>\<open>try\<close> around \<open>forEach\<close>
  does not see it.

  \<open>chunk_start\<close> is the part of a callback before the hooks: parsing and directive
  processing. \<open>start_chunks\<close> keeps the chunks that got through it, with their index.
\<close>

definition chunk_start :: "env \<Rightarrow> string \<Rightarrow> jsval + CamoflageGrpcResponse" where
  "chunk_start env stream =
     (case JSON_parse env (replace_first (os_EOL env) [] stream) of
        Inl e \<Rightarrow> Inl e
      | Inr parsedStream \<Rightarrow> processResponse (Buffer_from env) parsedStream)"

fun start_chunks :: "env \<Rightarrow> nat \<Rightarrow> string list \<Rightarrow> (nat \<times> CamoflageGrpcResponse) list" where
  "start_chunks env index [] = []"
| "start_chunks env index (stream # rest) =
     (case chunk_start env stream of
        Inl e \<Rightarrow> start_chunks env (Suc index) rest
      | Inr res \<Rightarrow> (index, res) # start_chunks env (Suc index) rest)"

text \<open>
  The \<open>beforeResponse\<close> loop of the callbacks. Every task awaits its hook \<open>j\<close> before it
  calls hook \<open>j + 1\<close>, and the tasks run the same code, so they advance in step: hook \<open>j\<close>
  runs for every chunk still alive, in chunk order, then hook \<open>j + 1\<close>. A task whose hook
  raises ends there.
\<close>

fun before_rounds ::
  "nat \<Rightarrow> CamoflageGrpcHook list \<Rightarrow> (nat \<times> CamoflageGrpcResponse) list
     \<Rightarrow> event list \<times> (nat \<times> CamoflageGrpcResponse) list" where
  "before_rounds j [] live = ([], live)"
| "before_rounds j (h # hs) live =
     (case before_rounds (Suc j) hs (filter (\<lambda>c. h JNull (Some (snd c)) = None) live) of
        (es, live') \<Rightarrow> (map (\<lambda>c. HookRun BeforeResponse j) live @ es, live'))"

text \<open>The rest of a callback, from the moment its \<open>sleep\<close> is over. \<open>n\<close> is
  \<^verbatim>\<open>streamArr.length\<close>.\<close>

definition chunk_finish ::
  "CamoflageGrpcHook list \<Rightarrow> string \<Rightarrow> nat \<Rightarrow> nat \<times> CamoflageGrpcResponse \<Rightarrow> event list" where
  "chunk_finish afterResponseHooks handlerPath n c =
     (case c of (index, res) \<Rightarrow>
        fst (seq [send_headers (headers res),
                  when_truthy (truthy (error res)) (emit (EmitError (error res))),
                  emit (Write (processedResponse res)),
                  send_headers (trailers res),
                  when_truthy (index = n - 1) (emit End),
                  collectMetrics (error res) handlerPath ''server-stream'',
                  run_hooks AfterResponse 0 afterResponseHooks JNull (Some res)]))"

text \<open>
  All the tasks reach \<^verbatim>\<open>await sleep(delay)\<close> in chunk order before any timer fires; the
  timers then fire earliest first, and the task woken by a timer runs to its end before
  the next timer fires.
\<close>

definition forEach_async ::
  "env \<Rightarrow> CamoflageGrpcHook list \<Rightarrow> CamoflageGrpcHook list \<Rightarrow> string \<Rightarrow> string list \<Rightarrow> event list" where
  "forEach_async env beforeResponseHooks afterResponseHooks handlerPath streamArr =
     (case before_rounds 0 beforeResponseHooks (start_chunks env 0 streamArr) of
        (es, live) \<Rightarrow>
          es @ concat (map (\<lambda>tc. chunk_finish afterResponseHooks handlerPath (length streamArr) (snd tc))
                        (foldl (\<lambda>q c. insert_timer (sleep_ms (delay (snd c))) c q) [] live)))"

definition serverSideStreamingHandler :: "env \<Rightarrow> Hooks \<Rightarrow> call \<Rightarrow> unit comp" where
  "serverSideStreamingHandler env hooks call =
     (let handlerPath = getPath call;
          path = mockFilePath env handlerPath;
          onRequestHooks = hooks_for hooks handlerPath onRequest;
          beforeResponseHooks = hooks_for hooks handlerPath beforeResponse;
          afterResponseHooks = hooks_for hooks handlerPath afterResponse
      in cbind (run_hooks OnRequest 0 onRequestHooks JUndefined None) (\<lambda>_.
         if existsSync env path
         then
           try_catch
             (cbind (render_mock env path (request call) (metadata call)) (\<lambda>content.
                (forEach_async env beforeResponseHooks afterResponseHooks handlerPath
                   (split_streams [] content), Inr ())))
             (\<lambda>thrown.
                cbind (emit (LogError thrown)) (\<lambda>_.
                cbind (internal_error thrown) (\<lambda>errorObj.
                seq [emit (EmitError errorObj),
                     emit End,
                     collectMetrics errorObj handlerPath ''server-stream''])))
         else
           seq [emit (LogError (JStr (not_found_message path))),
                emit (Write (not_found_error path)),
                emit End,
                collectMetrics (not_found_error path) handlerPath ''server-stream'']))"

section \<open>The client-streaming handler\<close>

text \<open>The handler registers two listeners and returns. The listener for \<open>data\<close> takes the
  accumulated requests and returns them with the message appended.\<close>

definition clientSideStreamingHandler_on_data ::
  "Hooks \<Rightarrow> call \<Rightarrow> jsval list \<Rightarrow> jsval \<Rightarrow> (jsval list) comp" where
  "clientSideStreamingHandler_on_data hooks call requests data =
     cbind (run_hooks OnRequest 0 (hooks_for hooks (getPath call) onRequest) data None)
       (\<lambda>_. ret (requests @ [data]))"

definition clientSideStreamingHandler_on_end ::
  "env \<Rightarrow> Hooks \<Rightarrow> call \<Rightarrow> jsval list \<Rightarrow> unit comp" where
  "clientSideStreamingHandler_on_end env hooks call requests =
     (let handlerPath = getPath call;
          beforeResponseHooks = hooks_for hooks handlerPath beforeResponse;
          afterResponseHooks = hooks_for hooks handlerPath afterResponse
      in try_catch
           (let path = mockFilePath env handlerPath
            in if existsSync env path
               then
                 cbind (render_mock env path (JArr requests) (metadata call)) (\<lambda>content.
                 cbind (lift (JSON_parse env content)) (\<lambda>response.
                 cbind (lift (processResponse (Buffer_from env) response)) (\<lambda>res.
                 seq [run_hooks BeforeResponse 0 beforeResponseHooks (JArr requests) (Some res),
                      emit (Sleep (delay res)),
                      send_headers (headers res),
                      emit (Callback (error res) (processedResponse res) (trailers res)),
                      collectMetrics (error res) handlerPath ''client-stream'',
                      run_hooks AfterResponse 0 afterResponseHooks (JArr requests) (Some res)])))
               else
                 seq [emit (LogError (JStr (not_found_message path))),
                      emit (Callback (not_found_error path) (JObj []) None),
                      collectMetrics (not_found_error path) handlerPath ''client-stream''])
           (\<lambda>thrown.
              cbind (emit (LogError thrown)) (\<lambda>_.
              cbind (internal_error thrown) (\<lambda>err.
              seq [emit (Callback err (JObj []) None),
                   collectMetrics thrown handlerPath ''client-stream'']))))"

text \<open>A whole call: the messages arrive one by one, each listener run ending before the
  next event is delivered, then the stream ends. A \<open>data\<close> listener that rejects leaves
  the accumulated requests as they were.\<close>

fun client_stream_data ::
  "Hooks \<Rightarrow> call \<Rightarrow> jsval list \<Rightarrow> jsval list \<Rightarrow> event list \<times> jsval list" where
  "client_stream_data hooks call requests [] = ([], requests)"
| "client_stream_data hooks call requests (data # rest) =
     (case clientSideStreamingHandler_on_data hooks call requests data of
        (es, Inl e) \<Rightarrow>
          (case client_stream_data hooks call requests rest of (es', rs) \<Rightarrow> (es @ es', rs))
      | (es, Inr requests') \<Rightarrow>
          (case client_stream_data hooks call requests' rest of (es', rs) \<Rightarrow> (es @ es', rs)))"

definition clientSideStreamingHandler :: "env \<Rightarrow> Hooks \<Rightarrow> call \<Rightarrow> jsval list \<Rightarrow> unit comp" where
  "clientSideStreamingHandler env hooks call messages =
     (case client_stream_data hooks call [] messages of
        (es, requests) \<Rightarrow>
          cbind (es, Inr ()) (\<lambda>_. clientSideStreamingHandler_on_end env hooks call requests))"

section \<open>The bidirectional-streaming handler\<close>

text \<open>The handler itself: the events at the start of the call, and whether the listeners
  were registered.\<close>

definition bidiStreamingHandler :: "env \<Rightarrow> call \<Rightarrow> event list \<times> bool" where
  "bidiStreamingHandler env call =
     (let handlerPath = getPath call;
          path = mockFilePath env handlerPath
      in if \<not> existsSync env path
         then (fst (seq [emit (LogError (JStr (not_found_message path))),
                         emit (Write (not_found_error path)),
                         emit End,
                         collectMetrics (not_found_error path) handlerPath ''bidi-stream'']),
               False)
         else ([], True))"

text \<open>The listener for \<open>data\<close>, with the accumulated requests after it: the message is
  pushed inside the \<^verbatim>\<open>try\<close>, once the \<open>onRequest\<close> hooks have completed.\<close>

definition bidiStreamingHandler_on_data ::
  "env \<Rightarrow> Hooks \<Rightarrow> call \<Rightarrow> jsval list \<Rightarrow> jsval \<Rightarrow> unit comp \<times> jsval list" where
  "bidiStreamingHandler_on_data env hooks call requests data =
     (let handlerPath = getPath call;
          path = mockFilePath env handlerPath;
          onRequestHooks = hooks_for hooks handlerPath onRequest;
          beforeResponseHooks = hooks_for hooks handlerPath beforeResponse;
          afterResponseHooks = hooks_for hooks handlerPath afterResponse
      in case run_hooks OnRequest 0 onRequestHooks data None of
           (es, Inl e) \<Rightarrow> ((es, Inl e), requests)
         | (es, Inr u) \<Rightarrow>
             (cbind (es, Inr ()) (\<lambda>_.
                try_catch
                  (cbind (render_mock env path data (metadata call)) (\<lambda>content.
                   cbind (lift (JSON_parse env content)) (\<lambda>response.
                   cbind (lift (get_member response ''data'')) (\<lambda>response_data.
                   cbind (lift (processResponse (Buffer_from env) response_data)) (\<lambda>res.
                   seq [run_hooks BeforeResponse 0 beforeResponseHooks data (Some res),
                        emit (Sleep (delay res)),
                        send_headers (headers res),
                        when_truthy (truthy (error res)) (emit (EmitError (error res))),
                        emit (Write (processedResponse res)),
                        send_headers (trailers res),
                        collectMetrics (error res) handlerPath ''bidi-stream'',
                        run_hooks AfterResponse 0 afterResponseHooks data (Some res)])))))
                  (\<lambda>thrown.
                     cbind (emit (LogError thrown)) (\<lambda>_.
                     cbind (internal_error thrown) (\<lambda>err.
                     seq [emit (EmitError err),
                          collectMetrics err handlerPath ''bidi-stream'',
                          emit End])))),
              requests @ [data]))"

definition bidiStreamingHandler_on_end :: "env \<Rightarrow> call \<Rightarrow> jsval list \<Rightarrow> unit comp" where
  "bidiStreamingHandler_on_end env call requests =
     (let handlerPath = getPath call;
          path = mockFilePath env handlerPath
      in try_catch
           (cbind (render_mock env path (JArr requests) (metadata call)) (\<lambda>content.
            cbind (lift (JSON_parse env content)) (\<lambda>response.
            cbind (lift (get_member response ''end'')) (\<lambda>response_end.
            if truthy response_end
            then
              cbind (lift (processResponse (Buffer_from env) response_end)) (\<lambda>res.
              seq [emit (Sleep (delay res)),
                   send_headers (headers res),
                   when_truthy (truthy (error res)) (emit (EmitError (error res))),
                   emit (Write (processedResponse res)),
                   send_headers (trailers res),
                   collectMetrics (error res) handlerPath ''bidi-stream''])
            else
              seq [collectMetrics (JObj [(''code'', status_OK)]) handlerPath ''bidi-stream'',
                   emit End]))))
           (\<lambda>thrown.
              cbind (emit (LogError thrown)) (\<lambda>_.
              cbind (internal_error thrown) (\<lambda>err.
              seq [emit (EmitError err),
                   emit End,
                   collectMetrics err handlerPath ''bidi-stream'']))))"

section \<open>The capture helper\<close>

text \<open>
  \<open>RequestHelper\<close> is called by the template engine with a context: the request and the
  metadata of the call under \<^verbatim>\<open>context.data.root\<close>, and the parameters of the directive
  under \<^verbatim>\<open>context.hash\<close> (a parameter that is not given is \<open>undefined\<close>). The metadata
  is used through its \<open>get\<close> method only. The helper calls three libraries: the regular
  expressions of the language (\<^verbatim>\<open>new RegExp(p)\<close> raises a SyntaxError on a pattern that
  is not well formed, and yields an object whose \<open>exec\<close> maps a string to a match array or
  to \<open>null\<close>), \<^verbatim>\<open>JSON.stringify(_, null, 2)\<close> and \<^verbatim>\<open>jsonpath.query\<close>.
  The helper returns the lines it logs and either its result or, as \<open>Inl\<close>, the value it
  raises.
\<close>

record capture_lib =
  new_RegExp :: "jsval \<Rightarrow> jsval + (jsval \<Rightarrow> jsval)"
  JSON_stringify :: "jsval \<Rightarrow> jsval"
  jsonpath_query :: "jsval \<Rightarrow> jsval \<Rightarrow> jsval + jsval"

record capture_context =
  root_request :: jsval
  root_metadata_get :: "jsval \<Rightarrow> jsval + jsval"
  hash_from :: jsval
  hash_key :: jsval
  hash_using :: jsval
  hash_selector :: jsval

datatype log_line = LogLine string "jsval list"

text \<open>\<^verbatim>\<open>match[1]\<close> on a match array.\<close>

definition element_at :: "jsval \<Rightarrow> nat \<Rightarrow> jsval" where
  "element_at v i =
     (case v of
        JArr xs \<Rightarrow> (if i < length xs then xs ! i else JUndefined)
      | _ \<Rightarrow> JUndefined)"

definition RequestHelper :: "capture_lib \<Rightarrow> capture_context \<Rightarrow> log_line list \<times> (jsval + jsval)" where
  "RequestHelper lib context =
     (if hash_from context = JStr ''metadata'' then
        (if \<not> truthy (hash_key context)
         then ([LogLine ''ERROR: No key specified'' []], Inr JNull)
         else (case root_metadata_get context (hash_key context) of
                 Inl e \<Rightarrow> ([], Inl e)
               | Inr v \<Rightarrow> ([], Inr (js_or v JNull))))
      else if hash_from context = JStr ''request'' then
        (if \<not> truthy (hash_using context) \<or> \<not> truthy (hash_selector context)
         then ([LogLine ''ERROR: No selector or using values specified'' []], Inr JNull)
         else if hash_using context = JStr ''regex'' then
           (case new_RegExp lib (hash_selector context) of
              Inl e \<Rightarrow> ([], Inl e)
            | Inr regex_exec \<Rightarrow>
                (let body = JSON_stringify lib (root_request context);
                     match = regex_exec body
                 in if truthy match then ([], Inr (element_at match 1))
                    else ([LogLine ''ERROR: No match found for specified regex '' [hash_selector context]],
                          Inr JNull)))
         else if hash_using context = JStr ''jsonpath'' then
           (case jsonpath_query lib (root_request context) (hash_selector context) of
              Inr result \<Rightarrow> ([], Inr result)
            | Inl err \<Rightarrow>
                ([LogLine ''ERROR: No match found for specified jsonpath '' [hash_selector context],
                  LogLine ''ERROR: '' [err]],
                 Inr JNull))
         else ([], Inr JNull))
      else ([], Inr JNull))"

section \<open>Collaborators to run the model with\<close>

text \<open>
  The theorems below hold for every environment. To run a handler on a concrete call, the
  following environment serves one mock file: its text is \<open>content\<close>, the template engine
  leaves it as it is, and \<^verbatim>\<open>JSON.parse\<close> is given by the table \<open>docs\<close> of the texts it
  is asked to parse; a text outside the table is refused with a SyntaxError.
\<close>

definition parse_table :: "(string \<times> jsval) list \<Rightarrow> string \<Rightarrow> jsval + jsval" where
  "parse_table docs s =
     (case map_of docs s of
        Some v \<Rightarrow> Inr v
      | None \<Rightarrow> Inl (SyntaxError ''Unexpected token''))"

definition mock_env :: "string \<Rightarrow> string \<Rightarrow> (string \<times> jsval) list \<Rightarrow> env" where
  "mock_env file content docs =
     \<lparr>mocksDir = ''/mocks'',
      path_join = (\<lambda>a b. if take 1 b = ''/'' then a @ b else a @ ''/'' @ b),
      existsSync = (\<lambda>p. p = file),
      readFileSync = (\<lambda>p. if p = file then Inr content else Inl (Error ''ENOENT'')),
      helpers_parse = (\<lambda>text req md. Inr text),
      JSON_parse = parse_table docs,
      Buffer_from = Buffer_from_base64,
      os_EOL = [CHR 0x0A]\<rparr>"

text \<open>The same environment with no mock file at all.\<close>

definition no_mock_env :: env where
  "no_mock_env = mock_env [] [] []"

definition no_hooks :: Hooks where
  "no_hooks = (\<lambda>path. None)"

text \<open>A hook that raises \<^verbatim>\<open>new Error("boom")\<close>.\<close>

definition failing_hook :: CamoflageGrpcHook where
  "failing_hook = (\<lambda>data res. Some (Error ''boom''))"

definition echo_call :: call where
  "echo_call = \<lparr>getPath = ''/pkg.Echo/Say'', request = JObj [(''id'', JStr ''abc'')], metadata = JObj []\<rparr>"

text \<open>
  A regular expression library for the capture helper that knows one fact of the
  language: the pattern \<open>(\<close> is not well formed. Every other pattern is accepted and
  matches nothing.
\<close>

definition strict_lib :: capture_lib where
  "strict_lib =
     \<lparr>new_RegExp = (\<lambda>p. if p = JStr ''('' then Inl (SyntaxError ''Invalid regular expression: /(/: Unterminated group'')
                         else Inr (\<lambda>body. JNull)),
      JSON_stringify = (\<lambda>v. JStr []),
      jsonpath_query = (\<lambda>obj sel. Inr (JArr []))\<rparr>"

definition say_mock :: string where
  "say_mock = ''/mocks/pkg/Echo/Say.mock''"

definition onRequest_fails :: Hooks where
  "onRequest_fails =
     (\<lambda>path. Some \<lparr>onRequest = Some [failing_hook], beforeResponse = None, afterResponse = None\<rparr>)"

definition afterResponse_fails :: Hooks where
  "afterResponse_fails =
     (\<lambda>path. Some \<lparr>onRequest = None, beforeResponse = None, afterResponse = Some [failing_hook]\<rparr>)"

definition regex_context :: "jsval \<Rightarrow> capture_context" where
  "regex_context sel =
     \<lparr>root_request = JObj [(''id'', JStr ''abc'')], root_metadata_get = (\<lambda>k. Inr (JArr [])),
      hash_from = JStr ''request'', hash_key = JUndefined,
      hash_using = JStr ''regex'', hash_selector = sel\<rparr>"

definition metadata_context :: "(jsval \<Rightarrow> jsval + jsval) \<Rightarrow> jsval \<Rightarrow> capture_context" where
  "metadata_context get k =
     \<lparr>root_request = JNull, root_metadata_get = get,
      hash_from = JStr ''metadata'', hash_key = k,
      hash_using = JUndefined, hash_selector = JUndefined\<rparr>"

text \<open>Three mock files: two chunks of which the first has the longer delay, a document
  with an \<open>end\<close> part, and an empty document; and a response without error, headers or
  trailers.\<close>

definition two_chunks :: string where
  "two_chunks = ''{\"a\":1,\"delay\":100}'' @ [CHR 0x0A] @ ''===='' @ [CHR 0x0A] @ ''{\"a\":2}''"

definition two_chunk_env :: env where
  "two_chunk_env =
     mock_env say_mock two_chunks
       [(''{\"a\":1,\"delay\":100}'', JObj [(''a'', JNum 1), (''delay'', JNum 100)]),
        (''{\"a\":2}'', JObj [(''a'', JNum 2)])]"

definition end_env :: env where
  "end_env =
     mock_env say_mock ''{\"end\":{\"msg\":\"bye\"}}''
       [(''{\"end\":{\"msg\":\"bye\"}}'', JObj [(''end'', JObj [(''msg'', JStr ''bye'')])])]"

definition empty_doc_env :: env where
  "empty_doc_env = mock_env say_mock ''{}'' [(''{}'', JObj [])]"

definition plain_response :: "jsval \<Rightarrow> jsval \<Rightarrow> CamoflageGrpcResponse" where
  "plain_response d payload =
     \<lparr>delay = d, error = JNull, processedResponse = payload, headers = None, trailers = None\<rparr>"

text \<open>A document with a delay, binary and plain headers and a binary trailer, and what
  \<open>processResponse\<close> makes of it.\<close>

definition bin_doc :: jsval where
  "bin_doc =
     JObj [(''delay'', JNum 5),
           (''metadata'',
              JObj [(''headers'', JObj [(''x-bin'', JStr ''aGk=''), (''y'', JStr ''aGk='')]),
                    (''trailers'', JObj [(''t-bin'', JStr ''AQI='')])]),
           (''msg'', JStr ''hi'')]"

definition bin_response :: CamoflageGrpcResponse where
  "bin_response =
     \<lparr>delay = JNum 5, error = JNull, processedResponse = JObj [(''msg'', JStr ''hi'')],
      headers = Some [(''x-bin'', MdBuffer [104, 105]), (''y'', MdValue (JStr ''aGk=''))],
      trailers = Some [(''t-bin'', MdBuffer [1, 2])]\<rparr>"

text \<open>A document with a header key that the library refuses.\<close>

definition bad_key_doc :: jsval where
  "bad_key_doc = JObj [(''metadata'', JObj [(''headers'', JObj [(''bad key'', JStr ''v'')])])]"

section \<open>Observing a trace\<close>

text \<open>What reaches the transport, and the metrics samples, of a sequence of events.\<close>

fun is_transport :: "event \<Rightarrow> bool" where
  "is_transport (SendMetadata md) = True"
| "is_transport (Callback e p t) = True"
| "is_transport (EmitError e) = True"
| "is_transport (Write p) = True"
| "is_transport End = True"
| "is_transport ev = False"

definition transport_of :: "event list \<Rightarrow> event list" where
  "transport_of es = filter is_transport es"

fun metric_of :: "event \<Rightarrow> (jsval \<times> string \<times> string) option" where
  "metric_of (Metric code m t) = Some (code, m, t)"
| "metric_of ev = None"

definition metrics_of :: "event list \<Rightarrow> (jsval \<times> string \<times> string) list" where
  "metrics_of es = List.map_filter metric_of es"

text \<open>The writes and the end of a stream, and the invocations of the terminal callback.\<close>

fun is_write_or_end :: "event \<Rightarrow> bool" where
  "is_write_or_end (Write p) = True"
| "is_write_or_end End = True"
| "is_write_or_end ev = False"

definition writes_of :: "event list \<Rightarrow> event list" where
  "writes_of es = filter is_write_or_end es"

fun is_callback :: "event \<Rightarrow> bool" where
  "is_callback (Callback e p t) = True"
| "is_callback ev = False"

definition callbacks_of :: "event list \<Rightarrow> event list" where
  "callbacks_of es = filter is_callback es"

section \<open>Properties of the directive processor\<close>

lemma map_of_filter_other:
  "k' \<noteq> k \<Longrightarrow> map_of (filter (\<lambda>kv. fst kv \<noteq> k) kvs) k' = map_of kvs k'"
  by (induction kvs) auto

lemma map_of_filter_same: "map_of (filter (\<lambda>kv. fst kv \<noteq> k) kvs) k = None"
  by (induction kvs) auto

lemma own_prop_delete_other: "k' \<noteq> k \<Longrightarrow> own_prop (delete_prop v k) k' = own_prop v k'"
  by (cases v) (simp_all add: own_prop_def delete_prop_def map_of_filter_other)

lemma own_prop_delete_same: "own_prop (delete_prop v k) k = JUndefined"
  by (cases v) (simp_all add: own_prop_def delete_prop_def map_of_filter_same)

lemma has_key_delete_same: "\<not> has_key (delete_prop v k) k"
  by (cases v) (auto simp: has_key_def delete_prop_def)

lemma has_key_delete_other: "k' \<noteq> k \<Longrightarrow> has_key (delete_prop v k) k' = has_key v k'"
  by (cases v) (auto simp: has_key_def delete_prop_def)

lemma nullish_delete: "nullish (delete_prop v k) = nullish v"
  by (cases v) (simp_all add: nullish_def delete_prop_def)

lemma own_prop_no_key: "\<not> has_key v k \<Longrightarrow> own_prop v k = JUndefined"
  by (cases v) (force simp: own_prop_def has_key_def split: option.splits dest: map_of_SomeD)+

lemma own_prop_falsy: "\<not> truthy m \<Longrightarrow> own_prop m k = JUndefined"
  by (cases m) (simp_all add: own_prop_def)

lemma delete_prop_no_key: "\<not> has_key v k \<Longrightarrow> delete_prop v k = v"
proof (cases v)
  case (JObj kvs)
  assume "\<not> has_key v k"
  with JObj have "\<forall>kv \<in> set kvs. fst kv \<noteq> k" by (auto simp: has_key_def)
  then have "filter (\<lambda>kv. fst kv \<noteq> k) kvs = kvs" by (simp add: filter_id_conv)
  with JObj show ?thesis by (simp add: delete_prop_def)
qed (simp_all add: delete_prop_def)

text \<open>A key that ends with \<open>-bin\<close> is a binary key of the library.\<close>

lemma endsWith_bin_normalize: "endsWith key ''-bin'' \<Longrightarrow> isBinaryKey (normalizeKey key)"
proof -
  assume "endsWith key ''-bin''"
  then have t: "take (length ''-bin'') (rev key) = rev ''-bin''" by (simp only: endsWith_def)
  have "take (length ''-bin'') (rev (map to_lower key)) = map to_lower (take (length ''-bin'') (rev key))"
    by (simp only: rev_map take_map)
  also have "\<dots> = map to_lower (rev ''-bin'')" by (simp only: t)
  also have "\<dots> = rev ''-bin''" by (simp add: to_lower_def)
  finally show ?thesis by (simp only: isBinaryKey_def normalizeKey_def endsWith_def)
qed

lemma for_in_entries_falsy: "\<not> truthy m \<Longrightarrow> for_in_entries m = []"
  by (cases m) simp_all

text \<open>The loop gets through exactly the accepted entries, and appends what they stand for.\<close>

lemma add_entry_accepted:
  "accepted buf kv \<Longrightarrow> add_entry buf md kv = Inr (md @ [inserted buf kv])"
  by (cases kv)
     (auto simp: accepted_def add_entry_def inserted_def Metadata_add_def Let_def
            endsWith_bin_normalize split: sum.splits if_splits)

lemma add_entry_rejected: "\<not> accepted buf kv \<Longrightarrow> \<exists>e. add_entry buf md kv = Inl e"
  by (cases kv)
     (auto simp: accepted_def add_entry_def Metadata_add_def Let_def endsWith_bin_normalize
            split: sum.splits if_splits)

lemma add_entries_accepted:
  "list_all (accepted buf) es \<Longrightarrow> add_entries buf es md = Inr (md @ map (inserted buf) es)"
  by (induction es arbitrary: md) (simp_all add: add_entry_accepted)

lemma add_entries_rejected:
  "\<not> list_all (accepted buf) es \<Longrightarrow> \<exists>e. add_entries buf es md = Inl e"
proof (induction es arbitrary: md)
  case Nil
  then show ?case by simp
next
  case (Cons kv es)
  show ?case
  proof (cases "accepted buf kv")
    case True
    with Cons.prems have "\<not> list_all (accepted buf) es" by simp
    from Cons.IH[OF this] True show ?thesis by (simp add: add_entry_accepted)
  next
    case False
    from add_entry_rejected[OF False, of md] show ?thesis by auto
  qed
qed

lemma build_metadata_accepted:
  "list_all (accepted buf) (for_in_entries m) \<Longrightarrow>
   build_metadata buf m =
     Inr (if truthy m then Some (map (inserted buf) (for_in_entries m)) else None)"
  by (simp add: build_metadata_def add_entries_accepted)

lemma build_metadata_rejected:
  "\<not> list_all (accepted buf) (for_in_entries m) \<Longrightarrow> \<exists>e. build_metadata buf m = Inl e"
proof -
  assume r: "\<not> list_all (accepted buf) (for_in_entries m)"
  have "truthy m"
  proof (rule ccontr)
    assume "\<not> truthy m"
    then have "for_in_entries m = []" by (rule for_in_entries_falsy)
    with r show False by simp
  qed
  moreover from add_entries_rejected[OF r, of "[]"] obtain e where "add_entries buf (for_in_entries m) [] = Inl e" ..
  ultimately show ?thesis by (simp add: build_metadata_def)
qed

lemma build_metadata_js_or: "build_metadata buf (js_or m JNull) = build_metadata buf m"
  by (simp add: js_or_def build_metadata_def)

text \<open>\<open>processResponse\<close> on a document that is not \<open>null\<close> or \<open>undefined\<close>, with the reads
  brought back to the document itself; and what it returns, when it returns.\<close>

lemma processResponse_unfold:
  "\<not> nullish doc \<Longrightarrow>
   processResponse buf doc =
     (if truthy (own_prop doc ''metadata'')
      then (case build_metadata buf (js_or (own_prop (own_prop doc ''metadata'') ''headers'') JNull) of
              Inl e \<Rightarrow> Inl e
            | Inr hs \<Rightarrow>
                (case build_metadata buf (js_or (own_prop (own_prop doc ''metadata'') ''trailers'') JNull) of
                   Inl e \<Rightarrow> Inl e
                 | Inr ts \<Rightarrow>
                     Inr \<lparr>delay = js_or (own_prop doc ''delay'') (JNum 0),
                          error = js_or (own_prop doc ''error'') JNull,
                          processedResponse =
                            delete_prop (delete_prop (delete_prop doc ''delay'') ''error'') ''metadata'',
                          headers = hs, trailers = ts\<rparr>))
      else Inr \<lparr>delay = js_or (own_prop doc ''delay'') (JNum 0),
                error = js_or (own_prop doc ''error'') JNull,
                processedResponse = delete_prop (delete_prop doc ''delay'') ''error'',
                headers = None, trailers = None\<rparr>)"
  by (simp add: processResponse_def get_member_def Let_def own_prop_delete_other cong: sum.case_cong)

lemma processResponse_nullish:
  "nullish doc \<Longrightarrow>
   processResponse buf doc = Inl (read_error doc ''delay'')"
  by (simp add: processResponse_def get_member_def)

lemma build_metadata_null: "build_metadata buf JNull = Inr None"
  by (simp add: build_metadata_def)

lemma processResponse_Inr:
  assumes "processResponse buf doc = Inr r"
  shows "\<not> nullish doc"
    and "delay r = js_or (own_prop doc ''delay'') (JNum 0)"
    and "error r = js_or (own_prop doc ''error'') JNull"
    and "processedResponse r =
           (if truthy (own_prop doc ''metadata'')
            then delete_prop (delete_prop (delete_prop doc ''delay'') ''error'') ''metadata''
            else delete_prop (delete_prop doc ''delay'') ''error'')"
    and "build_metadata buf (js_or (own_prop (own_prop doc ''metadata'') ''headers'') JNull) = Inr (headers r)"
    and "build_metadata buf (js_or (own_prop (own_prop doc ''metadata'') ''trailers'') JNull) = Inr (trailers r)"
proof -
  show nn: "\<not> nullish doc"
    using assms by (auto simp: processResponse_nullish)
  note u = processResponse_unfold[OF nn, of buf]
  show "delay r = js_or (own_prop doc ''delay'') (JNum 0)"
    using assms unfolding u by (auto split: if_splits sum.splits)
  show "error r = js_or (own_prop doc ''error'') JNull"
    using assms unfolding u by (auto split: if_splits sum.splits)
  show "processedResponse r =
           (if truthy (own_prop doc ''metadata'')
            then delete_prop (delete_prop (delete_prop doc ''delay'') ''error'') ''metadata''
            else delete_prop (delete_prop doc ''delay'') ''error'')"
    using assms unfolding u by (auto split: if_splits sum.splits)
  show "build_metadata buf (js_or (own_prop (own_prop doc ''metadata'') ''headers'') JNull) = Inr (headers r)"
    using assms unfolding u
    by (auto split: if_splits sum.splits simp: own_prop_falsy js_or_def build_metadata_null)
  show "build_metadata buf (js_or (own_prop (own_prop doc ''metadata'') ''trailers'') JNull) = Inr (trailers r)"
    using assms unfolding u
    by (auto split: if_splits sum.splits simp: own_prop_falsy js_or_def build_metadata_null)
qed

text \<open>The two unconditional deletions: the payload never has a \<open>delay\<close> or an \<open>error\<close>
  key, and the delay of a document whose \<open>delay\<close> is a non-negative number or absent is a
  non-negative number.\<close>

lemma processResponse_strips_delay_error:
  assumes "processResponse buf doc = Inr r"
  shows "\<not> has_key (processedResponse r) ''delay'' \<and> \<not> has_key (processedResponse r) ''error''"
  by (simp add: processResponse_Inr(4)[OF assms] has_key_delete_same has_key_delete_other)

lemma processResponse_delay_nonneg:
  assumes "processResponse buf doc = Inr r"
    and "own_prop doc ''delay'' = JUndefined \<or> (\<exists>n\<ge>0. own_prop doc ''delay'' = JNum n)"
  shows "\<exists>n\<ge>0. delay r = JNum n"
  using assms(2) by (auto simp: processResponse_Inr(2)[OF assms(1)] js_or_def)

text \<open>
  \<open>processResponse\<close> returns exactly on the documents, other than \<open>null\<close> and
  \<open>undefined\<close>, whose header and trailer entries are all accepted, and this is what it
  returns.
\<close>

lemma processResponse_returns:
  assumes "\<not> nullish doc"
    and "list_all (accepted buf)
           (for_in_entries (own_prop (own_prop doc ''metadata'') ''headers'')
            @ for_in_entries (own_prop (own_prop doc ''metadata'') ''trailers''))"
  shows "processResponse buf doc =
     Inr \<lparr>delay = js_or (own_prop doc ''delay'') (JNum 0),
          error = js_or (own_prop doc ''error'') JNull,
          processedResponse =
            (if truthy (own_prop doc ''metadata'')
             then delete_prop (delete_prop (delete_prop doc ''delay'') ''error'') ''metadata''
             else delete_prop (delete_prop doc ''delay'') ''error''),
          headers =
            (if truthy (own_prop (own_prop doc ''metadata'') ''headers'')
             then Some (map (inserted buf) (for_in_entries (own_prop (own_prop doc ''metadata'') ''headers'')))
             else None),
          trailers =
            (if truthy (own_prop (own_prop doc ''metadata'') ''trailers'')
             then Some (map (inserted buf) (for_in_entries (own_prop (own_prop doc ''metadata'') ''trailers'')))
             else None)\<rparr>"
proof (cases "truthy (own_prop doc ''metadata'')")
  case True
  from assms(2)
  have h: "list_all (accepted buf) (for_in_entries (own_prop (own_prop doc ''metadata'') ''headers''))"
    and t: "list_all (accepted buf) (for_in_entries (own_prop (own_prop doc ''metadata'') ''trailers''))"
    by simp_all
  show ?thesis
    unfolding processResponse_unfold[OF assms(1), of buf]
    by (simp add: True build_metadata_js_or build_metadata_accepted[OF h] build_metadata_accepted[OF t])
next
  case False
  then show ?thesis
    unfolding processResponse_unfold[OF assms(1), of buf]
    by (simp add: own_prop_falsy)
qed

lemma processResponse_raises:
  assumes "\<not> nullish doc"
    and "\<not> list_all (accepted buf)
           (for_in_entries (own_prop (own_prop doc ''metadata'') ''headers'')
            @ for_in_entries (own_prop (own_prop doc ''metadata'') ''trailers''))"
  shows "\<exists>e. processResponse buf doc = Inl e"
proof -
  have m: "truthy (own_prop doc ''metadata'')"
  proof (rule ccontr)
    assume "\<not> truthy (own_prop doc ''metadata'')"
    then have "own_prop (own_prop doc ''metadata'') ''headers'' = JUndefined"
      "own_prop (own_prop doc ''metadata'') ''trailers'' = JUndefined"
      by (simp_all add: own_prop_falsy)
    with assms(2) show False by simp
  qed
  show ?thesis
  proof (cases "list_all (accepted buf) (for_in_entries (own_prop (own_prop doc ''metadata'') ''headers''))")
    case False
    from build_metadata_rejected[OF False] obtain e
      where "build_metadata buf (own_prop (own_prop doc ''metadata'') ''headers'') = Inl e" ..
    then show ?thesis
      unfolding processResponse_unfold[OF assms(1), of buf]
      by (simp add: m build_metadata_js_or)
  next
    case True
    with assms(2)
    have "\<not> list_all (accepted buf) (for_in_entries (own_prop (own_prop doc ''metadata'') ''trailers''))"
      by simp
    from build_metadata_rejected[OF this] obtain e
      where "build_metadata buf (own_prop (own_prop doc ''metadata'') ''trailers'') = Inl e" ..
    then show ?thesis
      unfolding processResponse_unfold[OF assms(1), of buf]
      by (simp add: m build_metadata_js_or build_metadata_accepted[OF True])
  qed
qed

section \<open>Properties of the handlers\<close>

lemmas comp_defs = cbind_def try_catch_def emit_def ret_def lift_def when_truthy_def send_headers_def

lemmas nf_defs = collectMetrics_def not_found_error_def own_prop_def status_NOT_FOUND_def

lemma transport_of_append: "transport_of (xs @ ys) = transport_of xs @ transport_of ys"
  by (simp add: transport_of_def)

lemma metrics_of_append: "metrics_of (xs @ ys) = metrics_of xs @ metrics_of ys"
  by (simp add: metrics_of_def List.map_filter_def)

text \<open>Hooks act on neither the transport nor the metrics.\<close>

lemma run_hooks_quiet:
  "transport_of (fst (run_hooks ev i hs d r)) = [] \<and> metrics_of (fst (run_hooks ev i hs d r)) = []"
proof (induction hs arbitrary: i)
  case Nil
  then show ?case by (simp add: ret_def transport_of_def metrics_of_def)
next
  case (Cons h hs)
  show ?case
  proof (cases "h d r")
    case None
    obtain es out where rest: "run_hooks ev (Suc i) hs d r = (es, out)"
      by (cases "run_hooks ev (Suc i) hs d r")
    from Cons.IH[of "Suc i"] rest have "transport_of es = []" "metrics_of es = []" by simp_all
    with None rest show ?thesis
      by (simp add: cbind_def emit_def transport_of_def metrics_of_def)
  next
    case (Some e)
    then show ?thesis by (simp add: transport_of_def metrics_of_def)
  qed
qed

lemma client_stream_data_quiet:
  "transport_of (fst (client_stream_data hooks call requests messages)) = []
   \<and> metrics_of (fst (client_stream_data hooks call requests messages)) = []"
proof (induction messages arbitrary: requests)
  case Nil
  then show ?case by (simp add: transport_of_def metrics_of_def)
next
  case (Cons data rest)
  let ?hs = "hooks_for hooks (getPath call) onRequest"
  obtain es out where h: "run_hooks OnRequest 0 ?hs data None = (es, out)"
    by (cases "run_hooks OnRequest 0 ?hs data None")
  from run_hooks_quiet[of OnRequest 0 ?hs data None] h
  have q: "transport_of es = []" "metrics_of es = []" by simp_all
  show ?case
  proof (cases out)
    case (Inl e)
    obtain es' rs where r: "client_stream_data hooks call requests rest = (es', rs)"
      by (cases "client_stream_data hooks call requests rest")
    from Cons.IH[of requests] r have "transport_of es' = []" "metrics_of es' = []" by simp_all
    with q h Inl r show ?thesis
      by (simp add: clientSideStreamingHandler_on_data_def cbind_def transport_of_append
            metrics_of_append)
  next
    case (Inr u)
    obtain es' rs where r: "client_stream_data hooks call (requests @ [data]) rest = (es', rs)"
      by (cases "client_stream_data hooks call (requests @ [data]) rest")
    from Cons.IH[of "requests @ [data]"] r have "transport_of es' = []" "metrics_of es' = []"
      by simp_all
    with q h Inr r show ?thesis
      by (simp add: clientSideStreamingHandler_on_data_def cbind_def ret_def transport_of_append
            metrics_of_append)
  qed
qed

lemma truthy_prop_not_nullish: "truthy (own_prop v k) \<Longrightarrow> \<not> nullish v"
  by (cases v) (simp_all add: own_prop_def nullish_def)

lemma writes_of_append: "writes_of (xs @ ys) = writes_of xs @ writes_of ys"
  by (simp add: writes_of_def)

lemma callbacks_of_append: "callbacks_of (xs @ ys) = callbacks_of xs @ callbacks_of ys"
  by (simp add: callbacks_of_def)

lemma callbacks_of_quiet: "transport_of es = [] \<Longrightarrow> callbacks_of es = []"
proof -
  assume "transport_of es = []"
  then have "\<forall>x \<in> set es. \<not> is_transport x" by (simp add: transport_of_def filter_empty_conv)
  moreover have "\<And>x. is_callback x \<Longrightarrow> is_transport x" by (case_tac x) simp_all
  ultimately have "\<forall>x \<in> set es. \<not> is_callback x" by blast
  then show ?thesis by (simp add: callbacks_of_def filter_empty_conv)
qed

lemma writes_of_send_headers: "writes_of (fst (send_headers h)) = []"
  by (cases h) (simp_all add: send_headers_def emit_def ret_def writes_of_def)

lemma writes_of_collectMetrics: "writes_of (fst (collectMetrics e m t)) = []"
  by (simp add: collectMetrics_def emit_def writes_of_def)

text \<open>The writes of one chunk of a server stream without afterResponse hooks.\<close>
lemma writes_of_chunk_finish:
  "writes_of (chunk_finish [] p n (i, r)) = Write (processedResponse r) # (if i = n - 1 then [End] else [])"
  by (cases "headers r"; cases "trailers r")
     (simp_all add: chunk_finish_def comp_defs collectMetrics_def writes_of_def)

section \<open>The claims\<close>

text \<open>
  C1 (server-streaming chunks are written in document order, one chunk's write completing
  before the next is issued). The code does not do this: \<open>forEach\<close> does not await its
  callback, so the order of the writes is the order in which the delays run out. For a
  mock of two chunks and a path without hooks, whenever the first chunk has the longer
  delay the second chunk is written first, the stream is ended, and the first chunk is
  written after the end. The witness is the mock body \<^verbatim>\<open>{"a":1,"delay":100}\<close>,
  \<^verbatim>\<open>====\<close>, \<^verbatim>\<open>{"a":2}\<close>, with its whole trace.
\<close>

theorem serverSideStreaming_writes_by_delay:
  assumes "hooks (getPath call) = None"
    and "existsSync env (mockFilePath env (getPath call))"
    and "render_mock env (mockFilePath env (getPath call)) (request call) (metadata call) = ([], Inr content)"
    and "split_streams [] content = [s0, s1]"
    and "chunk_start env s0 = Inr r0"
    and "chunk_start env s1 = Inr r1"
    and "sleep_ms (delay r1) < sleep_ms (delay r0)"
  shows "writes_of (fst (serverSideStreamingHandler env hooks call))
           = [Write (processedResponse r1), End, Write (processedResponse r0)]"
proof -
  have f: "forEach_async env [] [] (getPath call) [s0, s1]
             = chunk_finish [] (getPath call) 2 (Suc 0, r1) @ chunk_finish [] (getPath call) 2 (0, r0)"
    using assms(5,6,7) by (simp add: forEach_async_def numeral_2_eq_2)
  have h: "serverSideStreamingHandler env hooks call
             = (chunk_finish [] (getPath call) 2 (Suc 0, r1) @ chunk_finish [] (getPath call) 2 (0, r0), Inr ())"
    using assms(1,2,3,4) f
    by (simp add: serverSideStreamingHandler_def Let_def hooks_for_def cbind_def try_catch_def ret_def)
  show ?thesis
    by (simp add: h writes_of_append writes_of_chunk_finish)
qed

theorem serverSideStreaming_writes_by_delay_witness:
  "serverSideStreamingHandler two_chunk_env no_hooks echo_call
     = ([Write (JObj [(''a'', JNum 2)]),
         End,
         Metric (JStr ''0'') ''/pkg.Echo/Say'' ''server-stream'',
         Write (JObj [(''a'', JNum 1)]),
         Metric (JStr ''0'') ''/pkg.Echo/Say'' ''server-stream''],
        Inr ())
   \<and> writes_of (fst (serverSideStreamingHandler two_chunk_env no_hooks echo_call))
     = [Write (processedResponse (plain_response (JNum 0) (JObj [(''a'', JNum 2)]))),
        End,
        Write (processedResponse (plain_response (JNum 100) (JObj [(''a'', JNum 1)])))]"
proof -
  have 1: "no_hooks (getPath echo_call) = None" by (simp add: no_hooks_def)
  have 2: "existsSync two_chunk_env (mockFilePath two_chunk_env (getPath echo_call))" by code_simp
  have 3: "render_mock two_chunk_env (mockFilePath two_chunk_env (getPath echo_call))
             (request echo_call) (metadata echo_call) = ([], Inr two_chunks)" by code_simp
  have 4: "split_streams [] two_chunks
             = [''{\"a\":1,\"delay\":100}'' @ [CHR 0x0A], [CHR 0x0A] @ ''{\"a\":2}'']" by code_simp
  have 5: "chunk_start two_chunk_env (''{\"a\":1,\"delay\":100}'' @ [CHR 0x0A])
             = Inr (plain_response (JNum 100) (JObj [(''a'', JNum 1)]))" by code_simp
  have 6: "chunk_start two_chunk_env ([CHR 0x0A] @ ''{\"a\":2}'')
             = Inr (plain_response (JNum 0) (JObj [(''a'', JNum 2)]))" by code_simp
  have 7: "sleep_ms (delay (plain_response (JNum 0) (JObj [(''a'', JNum 2)])))
             < sleep_ms (delay (plain_response (JNum 100) (JObj [(''a'', JNum 1)])))" by code_simp
  have t: "serverSideStreamingHandler two_chunk_env no_hooks echo_call
     = ([Write (JObj [(''a'', JNum 2)]),
         End,
         Metric (JStr ''0'') ''/pkg.Echo/Say'' ''server-stream'',
         Write (JObj [(''a'', JNum 1)]),
         Metric (JStr ''0'') ''/pkg.Echo/Say'' ''server-stream''],
        Inr ())" by code_simp
  from serverSideStreaming_writes_by_delay[where hooks = no_hooks and call = echo_call and env = two_chunk_env,
      OF 1 2 3 4 5 6 7] t
  show ?thesis by blast
qed

text \<open>
  C2 (\<open>processResponse\<close> is pure, total on well-formed JSON including \<open>null\<close>, and gives
  the same result when the same document is processed twice). As stated the claim fails:
  on \<open>null\<close> the function raises, and it changes its argument, so that the document
  \<^verbatim>\<open>{"delay":5,"msg":"hi"}\<close> is \<^verbatim>\<open>{"msg":"hi"}\<close> after the call and processing that
  object again yields the delay 0.
\<close>

theorem processResponse_null_and_mutation_counterexample:
  "processResponse Buffer_from_base64 JNull = Inl (read_error JNull ''delay'')
   \<and> processResponse Buffer_from_base64 (JObj [(''delay'', JNum 5), (''msg'', JStr ''hi'')])
     = Inr \<lparr>delay = JNum 5, error = JNull, processedResponse = JObj [(''msg'', JStr ''hi'')],
            headers = None, trailers = None\<rparr>
   \<and> JObj [(''msg'', JStr ''hi'')] \<noteq> JObj [(''delay'', JNum 5), (''msg'', JStr ''hi'')]
   \<and> processResponse Buffer_from_base64 (JObj [(''msg'', JStr ''hi'')])
     = Inr \<lparr>delay = JNum 0, error = JNull, processedResponse = JObj [(''msg'', JStr ''hi'')],
            headers = None, trailers = None\<rparr>"
  by code_simp

text \<open>
  C2, amended. \<open>processResponse\<close> is a function of the document and the decoder. On
  \<open>null\<close> it raises a TypeError. On any other document it returns exactly when the
  decoder and \<open>grpc.Metadata\<close> accept every entry of \<open>metadata.headers\<close> and of
  \<open>metadata.trailers\<close>, which is the case of every document without a truthy
  \<open>metadata\<close>; it then returns the response given below, and otherwise it raises. It is
  not pure: the payload it returns is its argument with \<open>delay\<close>, \<open>error\<close> and a truthy
  \<open>metadata\<close> deleted in place, and processing that same object again yields the delay 0,
  the error \<open>null\<close>, no headers, no trailers and the same payload.
\<close>

theorem processResponse_partial_in_place:
  "(nullish doc \<longrightarrow> processResponse buf doc = Inl (read_error doc ''delay''))
   \<and> (\<not> nullish doc \<longrightarrow>
        (if list_all (accepted buf)
              (for_in_entries (own_prop (own_prop doc ''metadata'') ''headers'')
               @ for_in_entries (own_prop (own_prop doc ''metadata'') ''trailers''))
         then processResponse buf doc =
           Inr \<lparr>delay = js_or (own_prop doc ''delay'') (JNum 0),
                error = js_or (own_prop doc ''error'') JNull,
                processedResponse =
                  (if truthy (own_prop doc ''metadata'')
                   then delete_prop (delete_prop (delete_prop doc ''delay'') ''error'') ''metadata''
                   else delete_prop (delete_prop doc ''delay'') ''error''),
                headers =
                  (if truthy (own_prop (own_prop doc ''metadata'') ''headers'')
                   then Some (map (inserted buf)
                                (for_in_entries (own_prop (own_prop doc ''metadata'') ''headers'')))
                   else None),
                trailers =
                  (if truthy (own_prop (own_prop doc ''metadata'') ''trailers'')
                   then Some (map (inserted buf)
                                (for_in_entries (own_prop (own_prop doc ''metadata'') ''trailers'')))
                   else None)\<rparr>
         else (\<exists>e. processResponse buf doc = Inl e)))
   \<and> (processResponse buf doc = Inr r \<longrightarrow>
        \<not> has_key (processedResponse r) ''delay'' \<and> \<not> has_key (processedResponse r) ''error''
        \<and> processResponse buf (processedResponse r) =
            Inr \<lparr>delay = JNum 0, error = JNull, processedResponse = processedResponse r,
                 headers = None, trailers = None\<rparr>)"
proof (intro conjI impI)
  assume "nullish doc"
  then show "processResponse buf doc = Inl (read_error doc ''delay'')"
    by (rule processResponse_nullish)
next
  assume nn: "\<not> nullish doc"
  show "if list_all (accepted buf)
              (for_in_entries (own_prop (own_prop doc ''metadata'') ''headers'')
               @ for_in_entries (own_prop (own_prop doc ''metadata'') ''trailers''))
         then processResponse buf doc =
           Inr \<lparr>delay = js_or (own_prop doc ''delay'') (JNum 0),
                error = js_or (own_prop doc ''error'') JNull,
                processedResponse =
                  (if truthy (own_prop doc ''metadata'')
                   then delete_prop (delete_prop (delete_prop doc ''delay'') ''error'') ''metadata''
                   else delete_prop (delete_prop doc ''delay'') ''error''),
                headers =
                  (if truthy (own_prop (own_prop doc ''metadata'') ''headers'')
                   then Some (map (inserted buf)
                                (for_in_entries (own_prop (own_prop doc ''metadata'') ''headers'')))
                   else None),
                trailers =
                  (if truthy (own_prop (own_prop doc ''metadata'') ''trailers'')
                   then Some (map (inserted buf)
                                (for_in_entries (own_prop (own_prop doc ''metadata'') ''trailers'')))
                   else None)\<rparr>
         else (\<exists>e. processResponse buf doc = Inl e)"
  proof (cases "list_all (accepted buf)
              (for_in_entries (own_prop (own_prop doc ''metadata'') ''headers'')
               @ for_in_entries (own_prop (own_prop doc ''metadata'') ''trailers''))")
    case True
    from processResponse_returns[OF nn True] True show ?thesis by (simp only: if_True)
  next
    case False
    from processResponse_raises[OF nn False] False show ?thesis by (simp only: if_False)
  qed
next
  assume r: "processResponse buf doc = Inr r"
  let ?p = "processedResponse r"
  note p = processResponse_Inr(4)[OF r]
  show nd: "\<not> has_key ?p ''delay''"
    by (simp add: p has_key_delete_same has_key_delete_other)
  show ne: "\<not> has_key ?p ''error''"
    by (simp add: p has_key_delete_same has_key_delete_other)
  have nn: "\<not> nullish ?p"
    using processResponse_Inr(1)[OF r] by (simp add: p nullish_delete)
  have nm: "\<not> truthy (own_prop ?p ''metadata'')"
    by (simp add: p own_prop_delete_same own_prop_delete_other)
  show "processResponse buf ?p =
          Inr \<lparr>delay = JNum 0, error = JNull, processedResponse = ?p, headers = None, trailers = None\<rparr>"
    using nm nd ne unfolding processResponse_unfold[OF nn, of buf]
    by (simp add: own_prop_no_key delete_prop_no_key js_or_def)
qed

theorem processResponse_partial_in_place_witness:
  "\<not> nullish bin_doc
   \<and> list_all (accepted Buffer_from_base64)
        (for_in_entries (own_prop (own_prop bin_doc ''metadata'') ''headers'')
         @ for_in_entries (own_prop (own_prop bin_doc ''metadata'') ''trailers''))
   \<and> processResponse Buffer_from_base64 bin_doc = Inr bin_response
   \<and> processedResponse bin_response \<noteq> bin_doc
   \<and> \<not> has_key (processedResponse bin_response) ''delay''
   \<and> \<not> has_key (processedResponse bin_response) ''error''
   \<and> processResponse Buffer_from_base64 (processedResponse bin_response) =
        Inr \<lparr>delay = JNum 0, error = JNull, processedResponse = processedResponse bin_response,
             headers = None, trailers = None\<rparr>
   \<and> \<not> nullish bad_key_doc
   \<and> \<not> list_all (accepted Buffer_from_base64)
        (for_in_entries (own_prop (own_prop bad_key_doc ''metadata'') ''headers'')
         @ for_in_entries (own_prop (own_prop bad_key_doc ''metadata'') ''trailers''))
   \<and> (\<exists>e. processResponse Buffer_from_base64 bad_key_doc = Inl e)"
proof -
  have 1: "\<not> nullish bin_doc" by code_simp
  have 2: "list_all (accepted Buffer_from_base64)
        (for_in_entries (own_prop (own_prop bin_doc ''metadata'') ''headers'')
         @ for_in_entries (own_prop (own_prop bin_doc ''metadata'') ''trailers''))" by code_simp
  have ev: "processResponse Buffer_from_base64 bin_doc = Inr bin_response" by code_simp
  have ne: "processedResponse bin_response \<noteq> bin_doc" by code_simp
  have 3: "\<not> nullish bad_key_doc" by code_simp
  have 4: "\<not> list_all (accepted Buffer_from_base64)
        (for_in_entries (own_prop (own_prop bad_key_doc ''metadata'') ''headers'')
         @ for_in_entries (own_prop (own_prop bad_key_doc ''metadata'') ''trailers''))" by code_simp
  from processResponse_partial_in_place[of bin_doc Buffer_from_base64 bin_response] ev
  have a: "\<not> has_key (processedResponse bin_response) ''delay''
        \<and> \<not> has_key (processedResponse bin_response) ''error''
        \<and> processResponse Buffer_from_base64 (processedResponse bin_response) =
            Inr \<lparr>delay = JNum 0, error = JNull, processedResponse = processedResponse bin_response,
                 headers = None, trailers = None\<rparr>" by blast
  from processResponse_partial_in_place[of bad_key_doc Buffer_from_base64 undefined] 3 4
  have b: "\<exists>e. processResponse Buffer_from_base64 bad_key_doc = Inl e" by (simp only: if_False simp_thms)
  from 1 2 ev ne a 3 4 b show ?thesis by blast
qed

text \<open>
  C3 (on the end of a bidirectional stream, a document with an \<open>end\<close> part yields one final
  chunk and then the stream is closed; without one the stream is closed at once with an OK
  outcome). The branch without \<open>end\<close> and the \<^verbatim>\<open>catch\<close> block call \<^verbatim>\<open>call.end()\<close>; the
  branch that writes the final chunk does not. Whenever the mock renders to a document
  with a truthy \<open>end\<close> part that \<open>processResponse\<close> accepts, the listener writes the one
  final chunk, returns, and the stream is left open. The witness is the mock
  \<^verbatim>\<open>{"end":{"msg":"bye"}}\<close>, with its whole trace.
\<close>

theorem bidi_end_chunk_leaves_stream_open:
  assumes "render_mock env (mockFilePath env (getPath call)) (JArr requests) (metadata call) = ([], Inr content)"
    and "JSON_parse env content = Inr response"
    and "truthy (own_prop response ''end'')"
    and "processResponse (Buffer_from env) (own_prop response ''end'') = Inr res"
  shows "writes_of (fst (bidiStreamingHandler_on_end env call requests)) = [Write (processedResponse res)]
       \<and> snd (bidiStreamingHandler_on_end env call requests) = Inr ()"
proof -
  from assms(3) have nn: "\<not> nullish response" by (rule truthy_prop_not_nullish)
  have "bidiStreamingHandler_on_end env call requests =
          (seq [emit (Sleep (delay res)),
                send_headers (headers res),
                when_truthy (truthy (error res)) (emit (EmitError (error res))),
                emit (Write (processedResponse res)),
                send_headers (trailers res),
                collectMetrics (error res) (getPath call) ''bidi-stream''])"
    using assms nn
    by (simp add: bidiStreamingHandler_on_end_def Let_def get_member_def cbind_def try_catch_def lift_def
          send_headers_def emit_def ret_def when_truthy_def collectMetrics_def split: option.splits)
  then show ?thesis
    by (cases "headers res"; cases "trailers res")
       (simp_all add: comp_defs collectMetrics_def writes_of_def)
qed

theorem bidi_end_chunk_leaves_stream_open_witness:
  "bidiStreamingHandler_on_end end_env echo_call [JObj [(''id'', JStr ''abc'')]]
     = ([Sleep (JNum 0),
         Write (JObj [(''msg'', JStr ''bye'')]),
         Metric (JStr ''0'') ''/pkg.Echo/Say'' ''bidi-stream''],
        Inr ())
   \<and> writes_of (fst (bidiStreamingHandler_on_end end_env echo_call [JObj [(''id'', JStr ''abc'')]]))
     = [Write (processedResponse (plain_response (JNum 0) (JObj [(''msg'', JStr ''bye'')])))]"
proof -
  have 1: "render_mock end_env (mockFilePath end_env (getPath echo_call))
             (JArr [JObj [(''id'', JStr ''abc'')]]) (metadata echo_call)
           = ([], Inr ''{\"end\":{\"msg\":\"bye\"}}'')" by code_simp
  have 2: "JSON_parse end_env ''{\"end\":{\"msg\":\"bye\"}}''
           = Inr (JObj [(''end'', JObj [(''msg'', JStr ''bye'')])])" by code_simp
  have 3: "truthy (own_prop (JObj [(''end'', JObj [(''msg'', JStr ''bye'')])]) ''end'')" by code_simp
  have 4: "processResponse (Buffer_from end_env) (own_prop (JObj [(''end'', JObj [(''msg'', JStr ''bye'')])]) ''end'')
           = Inr (plain_response (JNum 0) (JObj [(''msg'', JStr ''bye'')]))" by code_simp
  have t: "bidiStreamingHandler_on_end end_env echo_call [JObj [(''id'', JStr ''abc'')]]
     = ([Sleep (JNum 0),
         Write (JObj [(''msg'', JStr ''bye'')]),
         Metric (JStr ''0'') ''/pkg.Echo/Say'' ''bidi-stream''],
        Inr ())" by code_simp
  from bidi_end_chunk_leaves_stream_open[OF 1 2 3 4] t show ?thesis by blast
qed

text \<open>
  C4 (the capture helper never raises; every failure path returns \<open>null\<close> and logs). The
  \<open>jsonpath\<close> branch catches what the query raises; the \<open>regex\<close> branch builds the
  regular expression outside any \<^verbatim>\<open>try\<close>, so a selector that is not a well-formed
  pattern makes the helper raise what \<^verbatim>\<open>new RegExp\<close> raises, with nothing logged.
\<close>

theorem RequestHelper_raises_on_invalid_regex:
  assumes "hash_from context = JStr ''request''"
    and "hash_using context = JStr ''regex''"
    and "truthy (hash_selector context)"
    and "new_RegExp lib (hash_selector context) = Inl e"
  shows "RequestHelper lib context = ([], Inl e)"
  using assms by (simp add: RequestHelper_def)

theorem RequestHelper_raises_on_invalid_regex_witness:
  "new_RegExp strict_lib (hash_selector (regex_context (JStr ''('')))
     = Inl (SyntaxError ''Invalid regular expression: /(/: Unterminated group'')
   \<and> RequestHelper strict_lib (regex_context (JStr ''(''))
     = ([], Inl (SyntaxError ''Invalid regular expression: /(/: Unterminated group''))"
proof -
  have a: "hash_from (regex_context (JStr ''('')) = JStr ''request''"
    by (simp add: regex_context_def)
  have b: "hash_using (regex_context (JStr ''('')) = JStr ''regex''"
    by (simp add: regex_context_def)
  have c: "truthy (hash_selector (regex_context (JStr ''('')))"
    by (simp add: regex_context_def)
  have d: "new_RegExp strict_lib (hash_selector (regex_context (JStr ''('')))
             = Inl (SyntaxError ''Invalid regular expression: /(/: Unterminated group'')"
    by (simp add: regex_context_def strict_lib_def)
  from RequestHelper_raises_on_invalid_regex[OF a b c d] d show ?thesis by simp
qed

text \<open>
  C5 (the unary handler invokes the terminal callback exactly once, also when something
  raises after the first invocation). The \<open>afterResponse\<close> hooks run inside the
  \<^verbatim>\<open>try\<close> whose \<^verbatim>\<open>catch\<close> answers through the callback: whenever the response has
  been sent and an \<open>afterResponse\<close> hook raises, the callback has been invoked with the
  payload and is invoked again with the INTERNAL error. The witness is the mock \<^verbatim>\<open>{}\<close>
  with one hook that raises, with its whole trace: two invocations and two samples.
\<close>

theorem unary_callback_invoked_twice:
  assumes "existsSync env (mockFilePath env (getPath call))"
    and "render_mock env (mockFilePath env (getPath call)) (request call) (metadata call) = ([], Inr content)"
    and "JSON_parse env content = Inr response"
    and "processResponse (Buffer_from env) response = Inr res"
    and "run_hooks OnRequest 0 (hooks_for hooks (getPath call) onRequest) JUndefined None = (oes, Inr ())"
    and "run_hooks BeforeResponse 0 (hooks_for hooks (getPath call) beforeResponse) JNull (Some res) = (bes, Inr ())"
    and "run_hooks AfterResponse 0 (hooks_for hooks (getPath call) afterResponse) JNull (Some res) = (aes, Inl e)"
    and "\<not> nullish e"
  shows "callbacks_of (fst (unaryHandler env hooks call))
           = [Callback (error res) (processedResponse res) (trailers res),
              Callback (JObj [(''code'', status_INTERNAL), (''message'', own_prop e ''message'')]) (JObj []) None]"
proof -
  from run_hooks_quiet[of OnRequest 0 "hooks_for hooks (getPath call) onRequest" JUndefined None] assms(5)
  have qo: "callbacks_of oes = []" by (simp add: callbacks_of_quiet)
  from run_hooks_quiet[of BeforeResponse 0 "hooks_for hooks (getPath call) beforeResponse" JNull "Some res"] assms(6)
  have qb: "callbacks_of bes = []" by (simp add: callbacks_of_quiet)
  from run_hooks_quiet[of AfterResponse 0 "hooks_for hooks (getPath call) afterResponse" JNull "Some res"] assms(7)
  have qa: "callbacks_of aes = []" by (simp add: callbacks_of_quiet)
  have qh: "callbacks_of (fst (send_headers (headers res))) = []"
    by (cases "headers res") (simp_all add: send_headers_def emit_def ret_def callbacks_of_def)
  have qm: "\<And>x t. callbacks_of (fst (collectMetrics x (getPath call) t)) = []"
    by (simp add: collectMetrics_def emit_def callbacks_of_def)
  obtain hes where hs: "send_headers (headers res) = (hes, Inr ())"
    by (cases "headers res") (simp_all add: send_headers_def emit_def ret_def)
  obtain m1 where m1: "collectMetrics (error res) (getPath call) ''unary'' = ([m1], Inr ())" "\<not> is_callback m1"
    by (cases "truthy (error res) \<and> truthy (own_prop (error res) ''code'')") (simp_all add: collectMetrics_def emit_def)
  obtain m2 where m2: "collectMetrics (JObj [(''code'', status_INTERNAL), (''message'', own_prop e ''message'')]) (getPath call) ''unary'' = ([m2], Inr ())" "\<not> is_callback m2"
    by (simp add: collectMetrics_def emit_def own_prop_def status_INTERNAL_def)
  have u: "unaryHandler env hooks call =
     (oes @ bes @ [Sleep (delay res)] @ hes @ [Callback (error res) (processedResponse res) (trailers res), m1] @ aes
        @ [LogError e, Callback (JObj [(''code'', status_INTERNAL), (''message'', own_prop e ''message'')]) (JObj []) None, m2],
      Inr ())"
    using assms hs m1(1) m2(1)
    by (simp add: unaryHandler_def Let_def cbind_def try_catch_def lift_def emit_def ret_def
          internal_error_def get_member_def)
  from qh hs have qh': "callbacks_of hes = []" by simp
  show ?thesis
    using qo qb qa qh' m1(2) m2(2)
    by (simp add: u callbacks_of_append) (simp add: callbacks_of_def)
qed

theorem unary_callback_invoked_twice_witness:
  "unaryHandler empty_doc_env afterResponse_fails echo_call
     = ([Sleep (JNum 0),
         Callback JNull (JObj []) None,
         Metric (JStr ''0'') ''/pkg.Echo/Say'' ''unary'',
         HookRun AfterResponse 0,
         LogError (Error ''boom''),
         Callback (JObj [(''code'', status_INTERNAL), (''message'', JStr ''boom'')]) (JObj []) None,
         Metric status_INTERNAL ''/pkg.Echo/Say'' ''unary''],
        Inr ())
   \<and> callbacks_of (fst (unaryHandler empty_doc_env afterResponse_fails echo_call))
     = [Callback JNull (JObj []) None,
        Callback (JObj [(''code'', status_INTERNAL), (''message'', JStr ''boom'')]) (JObj []) None]"
proof -
  let ?res = "plain_response (JNum 0) (JObj [])"
  have 1: "existsSync empty_doc_env (mockFilePath empty_doc_env (getPath echo_call))" by code_simp
  have 2: "render_mock empty_doc_env (mockFilePath empty_doc_env (getPath echo_call))
             (request echo_call) (metadata echo_call) = ([], Inr ''{}'')" by code_simp
  have 3: "JSON_parse empty_doc_env ''{}'' = Inr (JObj [])" by code_simp
  have 4: "processResponse (Buffer_from empty_doc_env) (JObj []) = Inr ?res" by code_simp
  have 5: "run_hooks OnRequest 0 (hooks_for afterResponse_fails (getPath echo_call) onRequest) JUndefined None
             = ([], Inr ())" by code_simp
  have 6: "run_hooks BeforeResponse 0 (hooks_for afterResponse_fails (getPath echo_call) beforeResponse)
             JNull (Some ?res) = ([], Inr ())" by code_simp
  have 7: "run_hooks AfterResponse 0 (hooks_for afterResponse_fails (getPath echo_call) afterResponse)
             JNull (Some ?res) = ([HookRun AfterResponse 0], Inl (Error ''boom''))" by code_simp
  have 8: "\<not> nullish (Error ''boom'')" by code_simp
  have t: "unaryHandler empty_doc_env afterResponse_fails echo_call
     = ([Sleep (JNum 0),
         Callback JNull (JObj []) None,
         Metric (JStr ''0'') ''/pkg.Echo/Say'' ''unary'',
         HookRun AfterResponse 0,
         LogError (Error ''boom''),
         Callback (JObj [(''code'', status_INTERNAL), (''message'', JStr ''boom'')]) (JObj []) None,
         Metric status_INTERNAL ''/pkg.Echo/Say'' ''unary''],
        Inr ())" by code_simp
  have v: "error ?res = JNull" "processedResponse ?res = JObj []" "trailers ?res = None"
          "own_prop (Error ''boom'') ''message'' = JStr ''boom''"
    by (simp_all add: plain_response_def Error_def js_error_def own_prop_def)
  from unary_callback_invoked_twice[OF 1 2 3 4 5 6 7 8] t v show ?thesis by simp
qed

text \<open>
  C6 (without a mock file every handler answers with a NOT_FOUND status and an empty
  payload, and records one sample with the NOT_FOUND code). Every handler records exactly
  one sample with the NOT_FOUND code, and the unary and the client-streaming handler
  invoke the callback once with the NOT_FOUND error and an empty payload. The
  server-streaming and the bidirectional handler do not answer with a status: where the
  \<^verbatim>\<open>catch\<close> block of the same handler emits its error object on the stream, the
  not-found branch writes the error object as a message and ends the stream. The theorem
  is what each handler does when the resolved mock file does not exist; the unary and the
  server-streaming handler run the \<open>onRequest\<close> hooks first, and their part is about the
  calls whose \<open>onRequest\<close> hooks complete.
\<close>

theorem mock_not_found_outcomes:
  assumes nf: "\<not> existsSync env (mockFilePath env (getPath call))"
  shows "(run_hooks OnRequest 0 (hooks_for hooks (getPath call) onRequest) JUndefined None = (es, Inr ()) \<longrightarrow>
            transport_of (fst (unaryHandler env hooks call))
              = [Callback (not_found_error (mockFilePath env (getPath call))) (JObj []) None]
          \<and> metrics_of (fst (unaryHandler env hooks call)) = [(status_NOT_FOUND, getPath call, ''unary'')]
          \<and> transport_of (fst (serverSideStreamingHandler env hooks call))
              = [Write (not_found_error (mockFilePath env (getPath call))), End]
          \<and> metrics_of (fst (serverSideStreamingHandler env hooks call))
              = [(status_NOT_FOUND, getPath call, ''server-stream'')])
       \<and> transport_of (fst (clientSideStreamingHandler env hooks call messages))
              = [Callback (not_found_error (mockFilePath env (getPath call))) (JObj []) None]
       \<and> metrics_of (fst (clientSideStreamingHandler env hooks call messages))
              = [(status_NOT_FOUND, getPath call, ''client-stream'')]
       \<and> transport_of (fst (bidiStreamingHandler env call))
              = [Write (not_found_error (mockFilePath env (getPath call))), End]
       \<and> metrics_of (fst (bidiStreamingHandler env call)) = [(status_NOT_FOUND, getPath call, ''bidi-stream'')]
       \<and> \<not> snd (bidiStreamingHandler env call)"
proof (intro conjI impI)
  assume h: "run_hooks OnRequest 0 (hooks_for hooks (getPath call) onRequest) JUndefined None = (es, Inr ())"
  from run_hooks_quiet[of OnRequest 0 "hooks_for hooks (getPath call) onRequest" JUndefined None] h
  have q: "transport_of es = []" "metrics_of es = []" by simp_all
  have u: "unaryHandler env hooks call =
      (es @ [LogError (JStr (not_found_message (mockFilePath env (getPath call)))),
             Callback (not_found_error (mockFilePath env (getPath call))) (JObj []) None,
             Metric status_NOT_FOUND (getPath call) ''unary''], Inr ())"
    using nf h by (simp add: unaryHandler_def Let_def comp_defs nf_defs)
  have s: "serverSideStreamingHandler env hooks call =
      (es @ [LogError (JStr (not_found_message (mockFilePath env (getPath call)))),
             Write (not_found_error (mockFilePath env (getPath call))), End,
             Metric status_NOT_FOUND (getPath call) ''server-stream''], Inr ())"
    using nf h by (simp add: serverSideStreamingHandler_def Let_def comp_defs nf_defs)
  show "transport_of (fst (unaryHandler env hooks call))
              = [Callback (not_found_error (mockFilePath env (getPath call))) (JObj []) None]"
    by (simp add: u transport_of_append q) (simp add: transport_of_def)
  show "metrics_of (fst (unaryHandler env hooks call)) = [(status_NOT_FOUND, getPath call, ''unary'')]"
    by (simp add: u metrics_of_append q) (simp add: metrics_of_def)
  show "transport_of (fst (serverSideStreamingHandler env hooks call))
              = [Write (not_found_error (mockFilePath env (getPath call))), End]"
    by (simp add: s transport_of_append q) (simp add: transport_of_def)
  show "metrics_of (fst (serverSideStreamingHandler env hooks call))
              = [(status_NOT_FOUND, getPath call, ''server-stream'')]"
    by (simp add: s metrics_of_append q) (simp add: metrics_of_def)
next
  obtain des rs where d: "client_stream_data hooks call [] messages = (des, rs)"
    by (cases "client_stream_data hooks call [] messages")
  from client_stream_data_quiet[of hooks call "[]" messages] d
  have q: "transport_of des = []" "metrics_of des = []" by simp_all
  have c: "clientSideStreamingHandler env hooks call messages =
      (des @ [LogError (JStr (not_found_message (mockFilePath env (getPath call)))),
              Callback (not_found_error (mockFilePath env (getPath call))) (JObj []) None,
              Metric status_NOT_FOUND (getPath call) ''client-stream''], Inr ())"
    using nf d
    by (simp add: clientSideStreamingHandler_def clientSideStreamingHandler_on_end_def Let_def
          comp_defs nf_defs)
  show "transport_of (fst (clientSideStreamingHandler env hooks call messages))
              = [Callback (not_found_error (mockFilePath env (getPath call))) (JObj []) None]"
    by (simp add: c transport_of_append q) (simp add: transport_of_def)
  show "metrics_of (fst (clientSideStreamingHandler env hooks call messages))
              = [(status_NOT_FOUND, getPath call, ''client-stream'')]"
    by (simp add: c metrics_of_append q) (simp add: metrics_of_def)
next
  have b: "bidiStreamingHandler env call =
      ([LogError (JStr (not_found_message (mockFilePath env (getPath call)))),
        Write (not_found_error (mockFilePath env (getPath call))), End,
        Metric status_NOT_FOUND (getPath call) ''bidi-stream''], False)"
    using nf by (simp add: bidiStreamingHandler_def Let_def comp_defs nf_defs)
  show "transport_of (fst (bidiStreamingHandler env call))
              = [Write (not_found_error (mockFilePath env (getPath call))), End]"
    by (simp add: b transport_of_def)
  show "metrics_of (fst (bidiStreamingHandler env call)) = [(status_NOT_FOUND, getPath call, ''bidi-stream'')]"
    by (simp add: b metrics_of_def)
  show "\<not> snd (bidiStreamingHandler env call)"
    by (simp add: b)
qed

theorem mock_not_found_outcomes_witness:
  "\<not> existsSync no_mock_env (mockFilePath no_mock_env (getPath echo_call))
   \<and> run_hooks OnRequest 0 (hooks_for no_hooks (getPath echo_call) onRequest) JUndefined None = ([], Inr ())
   \<and> transport_of (fst (unaryHandler no_mock_env no_hooks echo_call))
       = [Callback (not_found_error (mockFilePath no_mock_env (getPath echo_call))) (JObj []) None]
   \<and> metrics_of (fst (unaryHandler no_mock_env no_hooks echo_call))
       = [(status_NOT_FOUND, getPath echo_call, ''unary'')]
   \<and> transport_of (fst (serverSideStreamingHandler no_mock_env no_hooks echo_call))
       = [Write (not_found_error (mockFilePath no_mock_env (getPath echo_call))), End]
   \<and> not_found_error (mockFilePath no_mock_env (getPath echo_call))
       = JObj [(''code'', JNum 5),
               (''message'', JStr ''No suitable mock file was found for /mocks/pkg/Echo/Say.mock'')]
   \<and> metrics_of (fst (serverSideStreamingHandler no_mock_env no_hooks echo_call))
       = [(status_NOT_FOUND, getPath echo_call, ''server-stream'')]
   \<and> transport_of (fst (clientSideStreamingHandler no_mock_env no_hooks echo_call [JNum 1, JNum 2]))
       = [Callback (not_found_error (mockFilePath no_mock_env (getPath echo_call))) (JObj []) None]
   \<and> metrics_of (fst (clientSideStreamingHandler no_mock_env no_hooks echo_call [JNum 1, JNum 2]))
       = [(status_NOT_FOUND, getPath echo_call, ''client-stream'')]
   \<and> transport_of (fst (bidiStreamingHandler no_mock_env echo_call))
       = [Write (not_found_error (mockFilePath no_mock_env (getPath echo_call))), End]
   \<and> metrics_of (fst (bidiStreamingHandler no_mock_env echo_call))
       = [(status_NOT_FOUND, getPath echo_call, ''bidi-stream'')]"
proof -
  have nf: "\<not> existsSync no_mock_env (mockFilePath no_mock_env (getPath echo_call))"
    by code_simp
  have h: "run_hooks OnRequest 0 (hooks_for no_hooks (getPath echo_call) onRequest) JUndefined None = ([], Inr ())"
    by code_simp
  have e: "not_found_error (mockFilePath no_mock_env (getPath echo_call))
       = JObj [(''code'', JNum 5),
               (''message'', JStr ''No suitable mock file was found for /mocks/pkg/Echo/Say.mock'')]"
    by code_simp
  from mock_not_found_outcomes[OF nf, of no_hooks "[]" "[JNum 1, JNum 2]"] nf h e
  show ?thesis by blast
qed

text \<open>
  C7 (a hook that raises is caught at the handler boundary, logged, answered with an
  INTERNAL response and accompanied by a metrics record, in every shape). The
  \<open>beforeResponse\<close> and \<open>afterResponse\<close> hooks of the unary handler run inside its
  \<^verbatim>\<open>try\<close>; the \<open>onRequest\<close> hooks run before it, in every shape. When an
  \<open>onRequest\<close> hook raises, the unary and the server-streaming handler, and the \<open>data\<close>
  listeners of the two other handlers, reject with what the hook raised: nothing is
  logged, nothing reaches the transport, no sample is recorded.
\<close>

theorem onRequest_hook_failure_not_caught:
  assumes "run_hooks OnRequest 0 (hooks_for hooks (getPath call) onRequest) data None = (es, Inl e)"
  shows "(data = JUndefined \<longrightarrow>
            unaryHandler env hooks call = (es, Inl e)
          \<and> serverSideStreamingHandler env hooks call = (es, Inl e))
       \<and> clientSideStreamingHandler_on_data hooks call requests data = (es, Inl e)
       \<and> bidiStreamingHandler_on_data env hooks call requests data = ((es, Inl e), requests)"
proof (intro conjI impI)
  assume "data = JUndefined"
  with assms
  have h: "run_hooks OnRequest 0 (hooks_for hooks (getPath call) onRequest) JUndefined None = (es, Inl e)"
    by simp
  from h show "unaryHandler env hooks call = (es, Inl e)"
    by (simp add: unaryHandler_def Let_def cbind_def)
  from h show "serverSideStreamingHandler env hooks call = (es, Inl e)"
    by (simp add: serverSideStreamingHandler_def Let_def cbind_def)
next
  from assms show "clientSideStreamingHandler_on_data hooks call requests data = (es, Inl e)"
    by (simp add: clientSideStreamingHandler_on_data_def cbind_def)
  from assms show "bidiStreamingHandler_on_data env hooks call requests data = ((es, Inl e), requests)"
    by (simp add: bidiStreamingHandler_on_data_def Let_def)
qed

theorem onRequest_hook_failure_not_caught_witness:
  "run_hooks OnRequest 0 (hooks_for onRequest_fails (getPath echo_call) onRequest) JUndefined None
     = ([HookRun OnRequest 0], Inl (Error ''boom''))
   \<and> unaryHandler empty_doc_env onRequest_fails echo_call
     = ([HookRun OnRequest 0], Inl (Error ''boom''))
   \<and> serverSideStreamingHandler empty_doc_env onRequest_fails echo_call
     = ([HookRun OnRequest 0], Inl (Error ''boom''))
   \<and> clientSideStreamingHandler_on_data onRequest_fails echo_call [] JUndefined
     = ([HookRun OnRequest 0], Inl (Error ''boom''))
   \<and> bidiStreamingHandler_on_data empty_doc_env onRequest_fails echo_call
        [] JUndefined
     = (([HookRun OnRequest 0], Inl (Error ''boom'')), [])"
proof -
  have h: "run_hooks OnRequest 0 (hooks_for onRequest_fails (getPath echo_call) onRequest) JUndefined None
     = ([HookRun OnRequest 0], Inl (Error ''boom''))" by code_simp
  from onRequest_hook_failure_not_caught[OF h] h show ?thesis by simp
qed

text \<open>
  C8 (the payload has none of the keys \<open>delay\<close>, \<open>error\<close>, \<open>metadata\<close>, also when they
  are present with a falsy value, and the delay is a non-negative number). \<open>delay\<close> and
  \<open>error\<close> are deleted unconditionally (\<open>processResponse_strips_delay_error\<close>);
  \<open>metadata\<close> is deleted inside \<^verbatim>\<open>if (response.metadata)\<close> only, so a \<open>metadata\<close> key
  with a falsy value stays in the payload.
\<close>

theorem processResponse_keeps_falsy_metadata:
  assumes "\<not> nullish doc" and "has_key doc ''metadata''" and "\<not> truthy (own_prop doc ''metadata'')"
  shows "\<exists>r. processResponse buf doc = Inr r \<and> has_key (processedResponse r) ''metadata''"
  using assms(2,3) unfolding processResponse_unfold[OF assms(1), of buf]
  by (simp add: has_key_delete_other)

theorem processResponse_keeps_falsy_metadata_witness:
  "\<not> nullish (JObj [(''metadata'', JNull), (''msg'', JStr ''hi'')])
   \<and> has_key (JObj [(''metadata'', JNull), (''msg'', JStr ''hi'')]) ''metadata''
   \<and> \<not> truthy (own_prop (JObj [(''metadata'', JNull), (''msg'', JStr ''hi'')]) ''metadata'')
   \<and> (\<exists>r. processResponse Buffer_from_base64 (JObj [(''metadata'', JNull), (''msg'', JStr ''hi'')]) = Inr r
          \<and> has_key (processedResponse r) ''metadata'')"
proof -
  have a: "\<not> nullish (JObj [(''metadata'', JNull), (''msg'', JStr ''hi'')])"
    by (simp add: nullish_def)
  have b: "has_key (JObj [(''metadata'', JNull), (''msg'', JStr ''hi'')]) ''metadata''"
    by (simp add: has_key_def)
  have c: "\<not> truthy (own_prop (JObj [(''metadata'', JNull), (''msg'', JStr ''hi'')]) ''metadata'')"
    by (simp add: own_prop_def)
  from processResponse_keeps_falsy_metadata[OF a b c, of Buffer_from_base64] a b c
  show ?thesis by blast
qed

text \<open>
  C9 (for every key of \<open>metadata.headers\<close> and of \<open>metadata.trailers\<close>: under a key that
  ends with \<open>-bin\<close> the value is base64-decoded to bytes before it is inserted, under any
  other key it is inserted unchanged). As stated the claim fails: nothing is inserted
  under a key that \<open>grpc.Metadata\<close> refuses. For the headers \<^verbatim>\<open>{"bad key":"v"}\<close>
  the call of \<open>add\<close> raises, and so does \<open>processResponse\<close>.
\<close>

theorem processResponse_illegal_key_counterexample:
  "processResponse Buffer_from_base64 bad_key_doc
     = Inl (Error ''Metadata key \"bad key\" contains illegal characters'')"
  by code_simp

text \<open>
  C9, amended. When the decoder and \<open>grpc.Metadata\<close> accept every entry of the two maps,
  \<open>processResponse\<close> returns, and the headers and the trailers hold one entry per key of
  the map, in the order of the map, under the lower-cased key, and nothing else: the
  decoded bytes under a key that ends with \<open>-bin\<close>, the value unchanged under any other
  key. When the lower-cased form of some key has a character outside
  \<^verbatim>\<open>0-9 a-z _ . -\<close>, \<open>processResponse\<close> raises.
\<close>

theorem processResponse_bin_suffix:
  assumes "\<not> nullish doc"
  shows "(list_all (accepted buf)
            (for_in_entries (own_prop (own_prop doc ''metadata'') ''headers'')
             @ for_in_entries (own_prop (own_prop doc ''metadata'') ''trailers'')) \<longrightarrow>
           (\<exists>r. processResponse buf doc = Inr r
              \<and> headers r =
                  (if truthy (own_prop (own_prop doc ''metadata'') ''headers'')
                   then Some (map (\<lambda>(key, v). (normalizeKey key,
                                     if endsWith key ''-bin'' then MdBuffer (projr (buf v)) else MdValue v))
                                (for_in_entries (own_prop (own_prop doc ''metadata'') ''headers'')))
                   else None)
              \<and> trailers r =
                  (if truthy (own_prop (own_prop doc ''metadata'') ''trailers'')
                   then Some (map (\<lambda>(key, v). (normalizeKey key,
                                     if endsWith key ''-bin'' then MdBuffer (projr (buf v)) else MdValue v))
                                (for_in_entries (own_prop (own_prop doc ''metadata'') ''trailers'')))
                   else None)))
       \<and> ((\<exists>kv \<in> set (for_in_entries (own_prop (own_prop doc ''metadata'') ''headers'')
                        @ for_in_entries (own_prop (own_prop doc ''metadata'') ''trailers'')).
              \<not> isLegalKey (normalizeKey (fst kv))) \<longrightarrow>
           (\<exists>e. processResponse buf doc = Inl e))"
proof (intro conjI impI)
  assume a: "list_all (accepted buf)
            (for_in_entries (own_prop (own_prop doc ''metadata'') ''headers'')
             @ for_in_entries (own_prop (own_prop doc ''metadata'') ''trailers''))"
  have i: "inserted buf = (\<lambda>(key, v). (normalizeKey key,
                 if endsWith key ''-bin'' then MdBuffer (projr (buf v)) else MdValue v))"
    by (rule ext) (simp add: inserted_def)
  from processResponse_returns[OF assms a] show "\<exists>r. processResponse buf doc = Inr r
              \<and> headers r =
                  (if truthy (own_prop (own_prop doc ''metadata'') ''headers'')
                   then Some (map (\<lambda>(key, v). (normalizeKey key,
                                     if endsWith key ''-bin'' then MdBuffer (projr (buf v)) else MdValue v))
                                (for_in_entries (own_prop (own_prop doc ''metadata'') ''headers'')))
                   else None)
              \<and> trailers r =
                  (if truthy (own_prop (own_prop doc ''metadata'') ''trailers'')
                   then Some (map (\<lambda>(key, v). (normalizeKey key,
                                     if endsWith key ''-bin'' then MdBuffer (projr (buf v)) else MdValue v))
                                (for_in_entries (own_prop (own_prop doc ''metadata'') ''trailers'')))
                   else None)"
    by (simp add: i)
next
  assume "\<exists>kv \<in> set (for_in_entries (own_prop (own_prop doc ''metadata'') ''headers'')
                        @ for_in_entries (own_prop (own_prop doc ''metadata'') ''trailers'')).
              \<not> isLegalKey (normalizeKey (fst kv))"
  then obtain kv where kv: "kv \<in> set (for_in_entries (own_prop (own_prop doc ''metadata'') ''headers'')
                        @ for_in_entries (own_prop (own_prop doc ''metadata'') ''trailers''))"
    and il: "\<not> isLegalKey (normalizeKey (fst kv))" by blast
  from il have "\<not> accepted buf kv" by (cases kv) (simp add: accepted_def)
  with kv have "\<not> list_all (accepted buf)
            (for_in_entries (own_prop (own_prop doc ''metadata'') ''headers'')
             @ for_in_entries (own_prop (own_prop doc ''metadata'') ''trailers''))"
    by (auto simp: list_all_iff)
  from processResponse_raises[OF assms this] show "\<exists>e. processResponse buf doc = Inl e" .
qed

theorem processResponse_bin_suffix_witness:
  "\<not> nullish bin_doc
   \<and> list_all (accepted Buffer_from_base64)
        (for_in_entries (own_prop (own_prop bin_doc ''metadata'') ''headers'')
         @ for_in_entries (own_prop (own_prop bin_doc ''metadata'') ''trailers''))
   \<and> (\<exists>r. processResponse Buffer_from_base64 bin_doc = Inr r
          \<and> headers r = Some [(''x-bin'', MdBuffer [104, 105]), (''y'', MdValue (JStr ''aGk=''))]
          \<and> trailers r = Some [(''t-bin'', MdBuffer [1, 2])])
   \<and> Buffer_from_base64 (JStr ''aGk='') = Inr [104, 105]
   \<and> \<not> nullish bad_key_doc
   \<and> (\<exists>e. processResponse Buffer_from_base64 bad_key_doc = Inl e)"
proof -
  have 1: "\<not> nullish bin_doc" by code_simp
  have 2: "list_all (accepted Buffer_from_base64)
        (for_in_entries (own_prop (own_prop bin_doc ''metadata'') ''headers'')
         @ for_in_entries (own_prop (own_prop bin_doc ''metadata'') ''trailers''))" by code_simp
  have h: "truthy (own_prop (own_prop bin_doc ''metadata'') ''headers'')"
    and t: "truthy (own_prop (own_prop bin_doc ''metadata'') ''trailers'')" by code_simp+
  have hv: "map (\<lambda>(key, v). (normalizeKey key,
                  if endsWith key ''-bin'' then MdBuffer (projr (Buffer_from_base64 v)) else MdValue v))
              (for_in_entries (own_prop (own_prop bin_doc ''metadata'') ''headers''))
            = [(''x-bin'', MdBuffer [104, 105]), (''y'', MdValue (JStr ''aGk=''))]" by code_simp
  have tv: "map (\<lambda>(key, v). (normalizeKey key,
                  if endsWith key ''-bin'' then MdBuffer (projr (Buffer_from_base64 v)) else MdValue v))
              (for_in_entries (own_prop (own_prop bin_doc ''metadata'') ''trailers''))
            = [(''t-bin'', MdBuffer [1, 2])]" by code_simp
  have d: "Buffer_from_base64 (JStr ''aGk='') = Inr [104, 105]" by code_simp
  have 3: "\<not> nullish bad_key_doc" by code_simp
  have 4: "\<exists>kv \<in> set (for_in_entries (own_prop (own_prop bad_key_doc ''metadata'') ''headers'')
                        @ for_in_entries (own_prop (own_prop bad_key_doc ''metadata'') ''trailers'')).
              \<not> isLegalKey (normalizeKey (fst kv))" by code_simp
  from processResponse_bin_suffix[OF 1, of Buffer_from_base64] 2 h t hv tv
  have a: "\<exists>r. processResponse Buffer_from_base64 bin_doc = Inr r
          \<and> headers r = Some [(''x-bin'', MdBuffer [104, 105]), (''y'', MdValue (JStr ''aGk=''))]
          \<and> trailers r = Some [(''t-bin'', MdBuffer [1, 2])]" by simp
  from processResponse_bin_suffix[OF 3, of Buffer_from_base64] 4
  have b: "\<exists>e. processResponse Buffer_from_base64 bad_key_doc = Inl e" by blast
  from 1 2 a d 3 b show ?thesis by blast
qed

text \<open>
  C10 (with the source \<open>metadata\<close> and a key, the capture helper returns the result of the
  metadata lookup when that result is truthy and \<open>null\<close> when it is falsy; it does not
  test whether the key is present). The result depends on the lookup's result only: a
  falsy result gives \<open>null\<close>, and an empty array, which is truthy, is returned as it is.
\<close>

theorem RequestHelper_metadata_lookup:
  assumes "hash_from context = JStr ''metadata''"
    and "truthy (hash_key context)"
    and "root_metadata_get context (hash_key context) = Inr v"
  shows "RequestHelper lib context = ([], Inr (if truthy v then v else JNull))"
  using assms by (simp add: RequestHelper_def js_or_def)

theorem RequestHelper_metadata_lookup_witness:
  "RequestHelper strict_lib (metadata_context (\<lambda>k. Inr (JArr [])) (JStr ''absent'')) = ([], Inr (JArr []))
   \<and> RequestHelper strict_lib (metadata_context (\<lambda>k. Inr (JStr [])) (JStr ''empty'')) = ([], Inr JNull)"
proof -
  have 1: "RequestHelper strict_lib (metadata_context (\<lambda>k. Inr (JArr [])) (JStr ''absent'')) = ([], Inr (JArr []))"
    using RequestHelper_metadata_lookup[of "metadata_context (\<lambda>k. Inr (JArr [])) (JStr ''absent'')" "JArr []" strict_lib]
    by (simp add: metadata_context_def)
  have 2: "RequestHelper strict_lib (metadata_context (\<lambda>k. Inr (JStr [])) (JStr ''empty'')) = ([], Inr JNull)"
    using RequestHelper_metadata_lookup[of "metadata_context (\<lambda>k. Inr (JStr [])) (JStr ''empty'')" "JStr []" strict_lib]
    by (simp add: metadata_context_def)
  from 1 2 show ?thesis by simp
qed

end
